theory Spec2Isabelle
  imports Complex_Main "HOL-Library.Sublist" "HOL-Library.Log_Nat"
begin

section \<open>JavaScript values shared by the modules\<close>

text \<open>
  Every error this code base raises is a JavaScript error object: the constructor's name
  and an optional \<open>message\<close> (\<open>err.message\<close> is \<open>undefined\<close> for a thrown value
  that carries none). A function that can throw returns \<open>js_error + 'a\<close>.
\<close>

datatype js_error = JsError (err_name: string) (message: "string option")

text \<open>Template literals render a number in decimal: \<open>`${n}`\<close>.\<close>

fun show_nat :: "nat \<Rightarrow> string" where
  "show_nat n =
     (if n < 10 then [''0123456789'' ! n]
      else show_nat (n div 10) @ [''0123456789'' ! (n mod 10)])"

declare show_nat.simps [simp del]

definition show_int :: "int \<Rightarrow> string" where
  "show_int i = (if i < 0 then CHR ''-'' # show_nat (nat (- i)) else show_nat (nat i))"

section \<open>The rate limiter of \<open>shared/ghl-utils.js\<close>\<close>

text \<open>
  \<open>createRateLimiter(opts)\<close> closes over four mutable variables; the model passes them
  as a record. \<open>Date.now()\<close> is an input: each reading the code takes is an argument of
  the function that takes it, in milliseconds.
\<close>

record limiter_opts =
  maxPerWindow :: int
  windowMs :: int
  maxPerDay :: int

definition default_limiter_opts :: limiter_opts where
  "default_limiter_opts = \<lparr>maxPerWindow = 100, windowMs = 10000, maxPerDay = 200000\<rparr>"

record limiter =
  windowStart :: int
  windowCount :: int
  dayStart :: int
  dayCount :: int


definition resetWindowIfNeeded :: "limiter_opts \<Rightarrow> int \<Rightarrow> limiter \<Rightarrow> limiter" where
  "resetWindowIfNeeded opts now s =
     (if now - windowStart s \<ge> windowMs opts
      then s\<lparr>windowStart := now, windowCount := 0\<rparr>
      else s)"

definition resetDayIfNeeded :: "int \<Rightarrow> limiter \<Rightarrow> limiter" where
  "resetDayIfNeeded now s =
     (if now - dayStart s \<ge> 86400000
      then s\<lparr>dayStart := now, dayCount := 0\<rparr>
      else s)"

text \<open>
  \<open>acquire()\<close> is an \<open>async\<close> function with one \<open>await\<close>: the timer of the short
  window. \<open>acquire_enter\<close> is its synchronous part, up to the \<open>throw\<close>, the
  \<open>await\<close> or the end; \<open>acquire_resume\<close> is what runs when the timer fires. The
  three arguments of \<open>acquire_enter\<close> are the readings of \<open>Date.now()\<close> in
  \<open>resetDayIfNeeded\<close>, in \<open>resetWindowIfNeeded\<close> and in the computation of
  \<open>waitMs\<close>.
\<close>

datatype acquire_step = Threw js_error | Awaiting int | Finished

definition daily_limit_error :: "limiter_opts \<Rightarrow> js_error" where
  "daily_limit_error opts =
     JsError ''Error'' (Some (''Daily rate limit reached ('' @ show_int (maxPerDay opts) @ '')''))"

definition admit :: "limiter \<Rightarrow> limiter" where
  "admit s = s\<lparr>windowCount := windowCount s + 1, dayCount := dayCount s + 1\<rparr>"

definition acquire_enter ::
    "limiter_opts \<Rightarrow> int \<Rightarrow> int \<Rightarrow> int \<Rightarrow> limiter \<Rightarrow> acquire_step \<times> limiter" where
  "acquire_enter opts t_day t_window t_wait s =
     (let s1 = resetDayIfNeeded t_day s in
      if dayCount s1 \<ge> maxPerDay opts then (Threw (daily_limit_error opts), s1)
      else
        let s2 = resetWindowIfNeeded opts t_window s1 in
        if windowCount s2 \<ge> maxPerWindow opts
        then (Awaiting (windowMs opts - (t_wait - windowStart s2) + 50), s2)
        else (Finished, admit s2))"

definition acquire_resume :: "limiter_opts \<Rightarrow> int \<Rightarrow> limiter \<Rightarrow> limiter" where
  "acquire_resume opts t_wake s = admit (resetWindowIfNeeded opts t_wake s)"

text \<open>
  One whole call of \<open>acquire()\<close> with no other caller running during its wait. The
  clock of the call holds its four readings; \<open>at_wake\<close> is the time at which the
  timer fires, read by the second \<open>resetWindowIfNeeded\<close>.
\<close>

record acquire_clock =
  at_day :: int
  at_window :: int
  at_wait :: int
  at_wake :: int

datatype acquire_outcome = Rejected js_error | Proceeded "int option"

definition acquire :: "limiter_opts \<Rightarrow> acquire_clock \<Rightarrow> limiter \<Rightarrow> acquire_outcome \<times> limiter" where
  "acquire opts c s =
     (case acquire_enter opts (at_day c) (at_window c) (at_wait c) s of
        (Threw e, s') \<Rightarrow> (Rejected e, s')
      | (Awaiting waitMs, s') \<Rightarrow> (Proceeded (Some waitMs), acquire_resume opts (at_wake c) s')
      | (Finished, s') \<Rightarrow> (Proceeded None, s'))"


text \<open>
  \<open>stats()\<close> runs both resets, each with its own reading of the clock, and returns the
  three numbers.
\<close>

record limiter_stats =
  windowRemaining :: int
  dayRemaining :: int
  stats_dayCount :: int

definition stats :: "limiter_opts \<Rightarrow> int \<Rightarrow> int \<Rightarrow> limiter \<Rightarrow> limiter_stats \<times> limiter" where
  "stats opts t_window t_day s =
     (let s1 = resetWindowIfNeeded opts t_window s;
          s2 = resetDayIfNeeded t_day s1
      in (\<lparr>windowRemaining = maxPerWindow opts - windowCount s2,
           dayRemaining = maxPerDay opts - dayCount s2,
           stats_dayCount = dayCount s2\<rparr>, s2))"

section \<open>The retry wrapper of \<open>shared/ghl-utils.js\<close>\<close>

text \<open>\<open>String.prototype.includes\<close>: the argument occurs as a contiguous substring.\<close>

fun str_includes :: "string \<Rightarrow> string \<Rightarrow> bool" where
  "str_includes [] sub = (sub = [])"
| "str_includes (c # cs) sub = (prefix sub (c # cs) \<or> str_includes cs sub)"

text \<open>
  \<open>err.message.match(/HTTP (\d+)/)?.[1]\<close>: the leftmost place where \<open>HTTP\<close> and a
  space are followed by a digit, and the longest run of digits from there (\<open>\d+\<close> is
  greedy). \<open>parseInt\<close> reads that run in base 10.
\<close>

definition is_digit :: "char \<Rightarrow> bool" where
  "is_digit c = (c \<in> set ''0123456789'')"

fun match_http_digits :: "string \<Rightarrow> string option" where
  "match_http_digits [] = None"
| "match_http_digits (c # cs) =
     (if prefix ''HTTP '' (c # cs) \<and> takeWhile is_digit (drop 5 (c # cs)) \<noteq> []
      then Some (takeWhile is_digit (drop 5 (c # cs)))
      else match_http_digits cs)"

definition digit_value :: "char \<Rightarrow> nat" where
  "digit_value c = length (takeWhile (\<lambda>d. d \<noteq> c) ''0123456789'')"

definition parseInt :: "string \<Rightarrow> nat" where
  "parseInt ds = foldl (\<lambda>n d. 10 * n + digit_value d) 0 ds"

definition http_status :: "string \<Rightarrow> nat option" where
  "http_status m = map_option parseInt (match_http_digits m)"

text \<open>
  The default \<open>shouldRetry\<close>. An error without a message is not retried:
  \<open>err.message?.includes(...)\<close> is \<open>undefined\<close> and \<open>parseInt(undefined)\<close> is
  \<open>NaN\<close>, which fails both comparisons; so does the \<open>NaN\<close> of a message with no
  \<open>HTTP <digits>\<close> in it.
\<close>

definition shouldRetry_default :: "js_error \<Rightarrow> bool" where
  "shouldRetry_default err =
     (case message err of
        None \<Rightarrow> False
      | Some m \<Rightarrow>
          if str_includes m ''fetch failed'' then True
          else (case http_status m of
                  None \<Rightarrow> False
                | Some status \<Rightarrow> status = 429 \<or> (status \<ge> 500 \<and> status < 600)))"

text \<open>
  \<open>withRetry(fn, opts)\<close>. The wrapped operation is effectful and is called once per
  pass of the loop, so it is a function of the attempt number: \<open>fn attempt\<close> is what
  that call settles to. \<open>random attempt\<close> is the value of \<open>Math.random()\<close> drawn in
  that pass. The result carries the trace of the effects: each call of \<open>fn\<close> and each
  \<open>setTimeout\<close> delay (every delay is preceded by one retry line in the log).
  \<open>lastError\<close> is \<open>undefined\<close> until the first failure.
\<close>

datatype 'a retry_outcome = Returned 'a | Rethrown js_error | ThrownUndefined

datatype retry_event = Invoked nat | Slept real

function retry_loop ::
    "(nat \<Rightarrow> js_error + 'a) \<Rightarrow> nat \<Rightarrow> real \<Rightarrow> (js_error \<Rightarrow> bool) \<Rightarrow> (nat \<Rightarrow> real)
      \<Rightarrow> nat \<Rightarrow> js_error option \<Rightarrow> 'a retry_outcome \<times> retry_event list" where
  "retry_loop fn maxRetries baseDelayMs shouldRetry random attempt lastError =
     (if attempt \<le> maxRetries then
        (case fn attempt of
           Inr v \<Rightarrow> (Returned v, [Invoked attempt])
         | Inl err \<Rightarrow>
             if attempt = maxRetries \<or> \<not> shouldRetry err
             then (Rethrown err, [Invoked attempt])
             else
               let delay = baseDelayMs * 2 ^ attempt + random attempt * baseDelayMs;
                   (r, evs) = retry_loop fn maxRetries baseDelayMs shouldRetry random
                                (attempt + 1) (Some err)
               in (r, Invoked attempt # Slept delay # evs))
      else (case lastError of None \<Rightarrow> ThrownUndefined | Some e \<Rightarrow> Rethrown e, []))"
  by pat_completeness auto
termination
  by (relation "measure (\<lambda>(fn, maxRetries, baseDelayMs, shouldRetry, random, attempt, lastError).
                  Suc maxRetries - attempt)") auto

declare retry_loop.simps [simp del]

definition withRetry ::
    "(nat \<Rightarrow> js_error + 'a) \<Rightarrow> nat \<Rightarrow> real \<Rightarrow> (js_error \<Rightarrow> bool) \<Rightarrow> (nat \<Rightarrow> real)
      \<Rightarrow> 'a retry_outcome \<times> retry_event list" where
  "withRetry fn maxRetries baseDelayMs shouldRetry random =
     retry_loop fn maxRetries baseDelayMs shouldRetry random 0 None"

text \<open>The call with \<open>opts = {}\<close>: three retries, a base delay of one second.\<close>

definition withRetry_default ::
    "(nat \<Rightarrow> js_error + 'a) \<Rightarrow> (nat \<Rightarrow> real) \<Rightarrow> 'a retry_outcome \<times> retry_event list" where
  "withRetry_default fn random = withRetry fn 3 1000 shouldRetry_default random"

fun invocations :: "retry_event list \<Rightarrow> nat list" where
  "invocations [] = []"
| "invocations (Invoked i # evs) = i # invocations evs"
| "invocations (Slept d # evs) = invocations evs"

fun delays :: "retry_event list \<Rightarrow> real list" where
  "delays [] = []"
| "delays (Invoked i # evs) = delays evs"
| "delays (Slept d # evs) = d # delays evs"

section \<open>The transport codec of \<open>shared/ghl-mcp-client.js\<close>\<close>

text \<open>
  A decoded message is whatever \<open>JSON.parse\<close> returns. Numbers are the integers of
  the protocol's ids; an object holds its own properties, each key once.
\<close>

datatype json =
    JNull
  | JBool bool
  | JNum int
  | JStr string
  | JArr "json list"
  | JObj "(string \<times> json) list"

text \<open>JavaScript's truthiness, as \<open>||\<close> tests it.\<close>

fun truthy :: "json \<Rightarrow> bool" where
  "truthy JNull = False"
| "truthy (JBool b) = b"
| "truthy (JNum n) = (n \<noteq> 0)"
| "truthy (JStr s) = (s \<noteq> [])"
| "truthy (JArr xs) = True"
| "truthy (JObj props) = True"

text \<open>
  The property read \<open>m.id\<close>: \<open>None\<close> is \<open>undefined\<close>. Reading a property of
  \<open>null\<close> throws a \<open>TypeError\<close>, which \<open>select_response\<close> below accounts for.
\<close>

fun get_id :: "json \<Rightarrow> json option" where
  "get_id (JObj props) = map_of props ''id''"
| "get_id m = None"

abbreviation NL :: char where
  "NL \<equiv> CHR 0x0A"

text \<open>\<open>buffer.split('\n')\<close>: the result is never empty.\<close>

fun split_newline :: "string \<Rightarrow> string list" where
  "split_newline [] = [[]]"
| "split_newline (c # cs) =
     (if c = NL then [] # split_newline cs
      else (case split_newline cs of
              [] \<Rightarrow> [[c]]
            | l # ls \<Rightarrow> (c # l) # ls))"

text \<open>
  The \<open>for\<close> loop over the complete lines of one chunk. \<open>currentData\<close> is declared
  inside the \<open>while\<close> loop of the reader, so every chunk starts it empty again and what
  is left in it when the lines of the chunk run out is dropped. \<open>parse\<close> stands for
  \<open>JSON.parse\<close>: \<open>None\<close> is its \<open>SyntaxError\<close>, which the \<open>catch\<close> swallows.
\<close>

fun scan_lines :: "(string \<Rightarrow> 'm option) \<Rightarrow> string list \<Rightarrow> string \<Rightarrow> 'm list \<Rightarrow> 'm list" where
  "scan_lines parse [] currentData messages = messages"
| "scan_lines parse (line # lines) currentData messages =
     (if prefix ''data: '' line
      then scan_lines parse lines (currentData @ drop 6 line) messages
      else if line = [] \<and> currentData \<noteq> []
      then scan_lines parse lines []
             (case parse currentData of Some m \<Rightarrow> messages @ [m] | None \<Rightarrow> messages)
      else scan_lines parse lines currentData messages)"

text \<open>
  The \<open>while\<close> loop of the reader: one pass per chunk the stream delivers, as text.
  \<open>lines.pop()\<close> takes the part after the last newline back into \<open>buffer\<close>.
\<close>

fun read_chunks ::
    "(string \<Rightarrow> 'm option) \<Rightarrow> string list \<Rightarrow> string \<Rightarrow> 'm list \<Rightarrow> string \<times> 'm list" where
  "read_chunks parse [] buffer messages = (buffer, messages)"
| "read_chunks parse (chunk # chunks) buffer messages =
     (let lines = split_newline (buffer @ chunk)
      in read_chunks parse chunks (last lines) (scan_lines parse (butlast lines) [] messages))"

definition parseSSEResponse :: "(string \<Rightarrow> 'm option) \<Rightarrow> string list \<Rightarrow> 'm list" where
  "parseSSEResponse parse chunks =
     (let (buffer, messages) = read_chunks parse chunks [] []
      in if prefix ''data: '' buffer
         then (case parse (drop 6 buffer) of Some m \<Rightarrow> messages @ [m] | None \<Rightarrow> messages)
         else messages)"

text \<open>
  The event-stream branch of \<open>sendJsonRpc\<close>:
  \<open>messages.filter(m => m.id === request.id).pop() || messages.pop() || {}\<close>.
  \<open>request_id\<close> is \<open>None\<close> for a notification, which has no id. The callback of
  \<open>filter\<close> reads \<open>m.id\<close> of every message, so a \<open>null\<close> among them throws.
\<close>

definition null_read_error :: js_error where
  "null_read_error =
     JsError ''TypeError''
       (Some (''Cannot read properties of null (reading '' @ [CHR 0x27] @ ''id''
              @ [CHR 0x27] @ '')''))"

definition select_response :: "json list \<Rightarrow> int option \<Rightarrow> js_error + json" where
  "select_response messages request_id =
     (if JNull \<in> set messages then Inl null_read_error
      else
        let matching = filter (\<lambda>m. get_id m = map_option JNum request_id) messages
        in if matching \<noteq> [] \<and> truthy (last matching) then Inr (last matching)
           else if messages \<noteq> [] \<and> truthy (last messages) then Inr (last messages)
           else Inr (JObj []))"

definition sse_result :: "(string \<Rightarrow> json option) \<Rightarrow> string list \<Rightarrow> int option \<Rightarrow> js_error + json" where
  "sse_result parse chunks request_id = select_response (parseSSEResponse parse chunks) request_id"

text \<open>
  \<open>JSON.parse\<close> is the engine's, not this repository's: the functions above take it
  as an argument. Examples evaluate them with its values on three payloads.
\<close>

definition sample_parse :: "string \<Rightarrow> json option" where
  \<open>sample_parse s =
     (if s = ''{"id":7,"result":{}}'' then Some (JObj [(''id'', JNum 7), (''result'', JObj [])])
      else if s = ''{"id":5,"result":{}}'' then Some (JObj [(''id'', JNum 5), (''result'', JObj [])])
      else if s = ''{"method":"notifications/progress"}''
      then Some (JObj [(''method'', JStr ''notifications/progress'')])
      else None)\<close>

section \<open>The monitoring checks of \<open>openclaw-skill/ghl_monitor.js\<close>\<close>

subsection \<open>Values read from the CRM's JSON\<close>

text \<open>
  A property that may be missing is an \<open>option\<close>. \<open>a || b\<close> on two optional strings
  yields \<open>a\<close> when it is present and not empty, else \<open>b\<close>; a number falls back to
  its default when it is missing or 0.
\<close>

definition str_truthy :: "string option \<Rightarrow> bool" where
  "str_truthy a = (case a of Some s \<Rightarrow> s \<noteq> [] | None \<Rightarrow> False)"

definition js_or :: "string option \<Rightarrow> string option \<Rightarrow> string option" where
  "js_or a b = (if str_truthy a then a else b)"

text \<open>\<open>a || ''\<close> on an optional string and \<open>a || []\<close> on an optional array.\<close>

definition or_empty :: "'a list option \<Rightarrow> 'a list" where
  "or_empty a = (case a of Some xs \<Rightarrow> xs | None \<Rightarrow> [])"

definition num_or :: "int option \<Rightarrow> int \<Rightarrow> int" where
  "num_or a d = (case a of Some n \<Rightarrow> if n \<noteq> 0 then n else d | None \<Rightarrow> d)"

text \<open>
  \<open>new Date(s)\<close> is the engine's: \<open>parseDate s\<close> is its time value in milliseconds,
  \<open>None\<close> for an invalid date, whose time value \<open>NaN\<close> fails every comparison.
\<close>

text \<open>
  A \<open>Date\<close> holds a time value of at most 8.64e15 ms either side of the epoch.
  Outside that range \<open>new Date(v)\<close> is an Invalid Date: its \<open>toISOString()\<close> throws
  a \<open>RangeError\<close> and it compares false with every date. The cutoffs below are
  written on integers: a reading of the clock is a whole number of milliseconds and a
  valid time, a whole threshold times 3600000 or 86400000 is a multiple of 128, so
  the double arithmetic of the source is exact wherever its result is a valid time and
  lands out of range exactly when the integer does.
\<close>

definition valid_time :: "int \<Rightarrow> bool" where
  "valid_time v = (- 8640000000000000 \<le> v \<and> v \<le> 8640000000000000)"

definition invalid_time_error :: js_error where
  "invalid_time_error = JsError ''RangeError'' (Some ''Invalid time value'')"

definition date_before :: "(string \<Rightarrow> int option) \<Rightarrow> string option \<Rightarrow> int \<Rightarrow> bool" where
  "date_before parseDate d cutoff =
     (case d of
        None \<Rightarrow> False
      | Some s \<Rightarrow> (case parseDate s of None \<Rightarrow> False | Some t \<Rightarrow> t < cutoff))"

text \<open>\<open>timeAgo(date)\<close> of \<open>shared/ghl-utils.js\<close>; \<open>Math.floor\<close> of a quotient is \<open>div\<close>.\<close>

definition timeAgo :: "int \<Rightarrow> (string \<Rightarrow> int option) \<Rightarrow> string option \<Rightarrow> string" where
  "timeAgo now parseDate d =
     (case Option.bind d parseDate of
        None \<Rightarrow> ''NaNd ago''
      | Some t \<Rightarrow>
          let diffMs = now - t;
              minutes = diffMs div 60000
          in if minutes < 1 then ''just now''
             else if minutes < 60 then show_int minutes @ ''m ago''
             else
               let hours = minutes div 60
               in if hours < 24 then show_int hours @ ''h ago''
                  else show_int (hours div 24) @ ''d ago'')"

text \<open>\<open>String.prototype.trim\<close>, for the white space of the ASCII range.\<close>

definition is_space :: "char \<Rightarrow> bool" where
  "is_space c = (c \<in> set [CHR '' '', CHR 0x09, CHR 0x0A, CHR 0x0B, CHR 0x0C, CHR 0x0D])"

definition trim :: "string \<Rightarrow> string" where
  "trim s = rev (dropWhile is_space (rev (dropWhile is_space s)))"

record monitor_thresholds =
  stale_lead_hours :: "int option"
  stuck_opportunity_days :: "int option"
  slow_response_minutes :: "int option"

record ghl_contact =
  contact_id :: string
  firstName :: "string option"
  lastName :: "string option"
  email :: "string option"
  phone :: "string option"
  tags :: "string list option"
  lastActivity :: "string option"
  dateUpdated :: "string option"
  dateAdded :: "string option"

subsection \<open>\<open>checkStaleLeads\<close>\<close>

record stale_item =
  item_id :: string
  item_name :: "string option"
  item_lastActivity :: string
  item_tags :: "string list"

record stale_finding =
  check :: string
  count :: nat
  threshold :: string
  items :: "stale_item list"
  hasMore :: bool

text \<open>The date the filter judges a contact by: \<open>c.lastActivity || c.dateUpdated || c.dateAdded\<close>.\<close>

definition activity_date :: "ghl_contact \<Rightarrow> string option" where
  "activity_date c = js_or (js_or (lastActivity c) (dateUpdated c)) (dateAdded c)"

definition is_stale :: "(string \<Rightarrow> int option) \<Rightarrow> int \<Rightarrow> ghl_contact \<Rightarrow> bool" where
  "is_stale parseDate cutoff c =
     (str_truthy (activity_date c) \<and> date_before parseDate (activity_date c) cutoff)"

definition stale_item_of :: "int \<Rightarrow> (string \<Rightarrow> int option) \<Rightarrow> ghl_contact \<Rightarrow> stale_item" where
  "stale_item_of render_now parseDate c =
     \<lparr>item_id = contact_id c,
      item_name =
        js_or (js_or (Some (trim (or_empty (firstName c) @ '' '' @ or_empty (lastName c))))
                     (email c))
              (phone c),
      item_lastActivity = timeAgo render_now parseDate (activity_date c),
      item_tags = or_empty (tags c)\<rparr>"

text \<open>
  \<open>now\<close> is the reading of the clock the cutoff is computed from, \<open>render_now\<close> the
  later one \<open>timeAgo\<close> takes. \<open>thresholds\<close> is \<open>config.thresholds\<close>, and
  \<open>fetched\<close> what \<open>actions.searchContacts\<close> settled to, with the \<open>contacts\<close> array
  already taken out of the parsed content (empty when it is missing). Thresholds are
  whole numbers. The cutoff goes through \<open>toISOString()\<close> and back, which keeps its
  milliseconds and throws, before anything is fetched, when the cutoff is no valid time.
\<close>

definition checkStaleLeads ::
    "int \<Rightarrow> int \<Rightarrow> (string \<Rightarrow> int option) \<Rightarrow> monitor_thresholds option
      \<Rightarrow> js_error + ghl_contact list \<Rightarrow> js_error + stale_finding" where
  "checkStaleLeads now render_now parseDate thresholds fetched =
     (let threshold = num_or (Option.bind thresholds stale_lead_hours) 48;
          cutoff = now - threshold * 3600000
      in if \<not> valid_time cutoff then Inl invalid_time_error
         else
           case fetched of
             Inl e \<Rightarrow> Inl e
           | Inr contacts \<Rightarrow>
               let stale = filter (is_stale parseDate cutoff) contacts
               in Inr \<lparr>check = ''stale_leads'',
                       count = length stale,
                       threshold = show_int threshold @ ''h'',
                       items = map (stale_item_of render_now parseDate) (take 10 stale),
                       hasMore = (length stale > 10)\<rparr>)"

text \<open>
  The specification's wording of the same test, for comparison: the most recent of the
  three dates a contact carries predates the cutoff.
\<close>

definition spec_most_recent :: "(string \<Rightarrow> int option) \<Rightarrow> ghl_contact \<Rightarrow> int option" where
  "spec_most_recent parseDate c =
     (case List.map_filter (\<lambda>d. Option.bind d parseDate) [lastActivity c, dateUpdated c, dateAdded c] of
        [] \<Rightarrow> None
      | t # ts \<Rightarrow> Some (fold max ts t))"

definition spec_is_stale :: "(string \<Rightarrow> int option) \<Rightarrow> int \<Rightarrow> ghl_contact \<Rightarrow> bool" where
  "spec_is_stale parseDate cutoff c =
     (case spec_most_recent parseDate c of None \<Rightarrow> False | Some t \<Rightarrow> t < cutoff)"

subsection \<open>JavaScript numbers\<close>

text \<open>
  A JavaScript number is an IEEE 754 double: a finite value, given here by the rational
  it stands for (the two zeros are not told apart), an infinity or \<open>NaN\<close>.
  \<open>to_double x\<close> is the double nearest to the rational \<open>x\<close>, ties going to the even
  significand: what \<open>JSON.parse\<close> makes of a number literal and what an arithmetic
  operation makes of its exact result. \<open>floor_log2 a\<close> is the exponent \<open>e\<close> with
  \<open>2 ^ e \<le> a < 2 ^ (e + 1)\<close>; below \<open>2 ^ -1022\<close> the spacing of the doubles stays
  \<open>2 ^ -1074\<close>, and a result that rounds to \<open>2 ^ 1024\<close> is an infinity.
\<close>

datatype js_number = Num rat | PosInfinity | NegInfinity | NaN

definition pow2 :: "int \<Rightarrow> rat" where
  "pow2 e = (if 0 \<le> e then 2 ^ nat e else 1 / 2 ^ nat (- e))"

definition floor_log2 :: "rat \<Rightarrow> int" where
  "floor_log2 a = (if 1 \<le> a then bitlen \<lfloor>a\<rfloor> - 1 else - bitlen (\<lceil>1 / a\<rceil> - 1))"

definition round_half_even :: "rat \<Rightarrow> int" where
  "round_half_even m =
     (if m - of_int \<lfloor>m\<rfloor> < 1 / 2 then \<lfloor>m\<rfloor>
      else if 1 / 2 < m - of_int \<lfloor>m\<rfloor> then \<lfloor>m\<rfloor> + 1
      else if even \<lfloor>m\<rfloor> then \<lfloor>m\<rfloor>
      else \<lfloor>m\<rfloor> + 1)"

definition to_double :: "rat \<Rightarrow> js_number" where
  "to_double x =
     (if x = 0 then Num 0
      else
        let ulp = pow2 (max (floor_log2 \<bar>x\<bar>) (- 1022) - 52);
            y = of_int (round_half_even (\<bar>x\<bar> / ulp)) * ulp
        in if pow2 1024 \<le> y then (if 0 < x then PosInfinity else NegInfinity)
           else Num (if 0 < x then y else - y))"

text \<open>The operator \<open>+\<close> on two numbers, and the truthiness \<open>||\<close> tests.\<close>

fun js_add :: "js_number \<Rightarrow> js_number \<Rightarrow> js_number" where
  "js_add (Num a) (Num b) = to_double (a + b)"
| "js_add NaN y = NaN"
| "js_add x NaN = NaN"
| "js_add PosInfinity NegInfinity = NaN"
| "js_add NegInfinity PosInfinity = NaN"
| "js_add PosInfinity y = PosInfinity"
| "js_add x PosInfinity = PosInfinity"
| "js_add NegInfinity y = NegInfinity"
| "js_add x NegInfinity = NegInfinity"

fun number_truthy :: "js_number \<Rightarrow> bool" where
  "number_truthy (Num a) = (a \<noteq> 0)"
| "number_truthy NaN = False"
| "number_truthy PosInfinity = True"
| "number_truthy NegInfinity = True"

subsection \<open>\<open>checkPipelineBottlenecks\<close>\<close>

record ghl_stage =
  stage_id :: "string option"
  stage_name :: "string option"

record ghl_pipeline =
  pipeline_id :: string
  pipeline_name :: "string option"
  stages :: "ghl_stage list option"

text \<open>
  \<open>monetaryValue\<close> is the number literal of the CRM's JSON, when the property is
  there; \<open>opp.monetaryValue\<close> is the double \<open>JSON.parse\<close> made of it.
\<close>

record ghl_opportunity =
  opp_id :: string
  opp_name :: "string option"
  contactName :: "string option"
  pipelineStageId :: "string option"
  monetaryValue :: "rat option"
  lastStageChangeAt :: "string option"
  updatedAt :: "string option"
  createdAt :: "string option"

record stuck_item =
  stuck_id :: string
  stuck_name :: "string option"
  stuck_value :: "js_number option"
  stuckSince :: string

record bottleneck =
  pipeline :: "string option"
  stage :: string
  stuck_count :: nat
  totalValue :: js_number
  stuck_items :: "stuck_item list"

record bottleneck_finding =
  pb_check :: string
  pb_count :: nat
  pb_threshold :: string
  bottlenecks :: "bottleneck list"

text \<open>
  \<open>stageGroups\<close> is a plain object used as a map from stage name to array. A property
  key is a string (\<open>undefined\<close> becomes the key \<open>undefined\<close>). The object inherits
  from \<open>Object.prototype\<close>: under one of its names \<open>stageGroups[stageName]\<close> is
  already truthy and has no \<open>push\<close>, so the call throws.
\<close>

definition property_key :: "string option \<Rightarrow> string" where
  "property_key k = (case k of None \<Rightarrow> ''undefined'' | Some s \<Rightarrow> s)"

definition object_prototype_keys :: "string list" where
  "object_prototype_keys =
     [''constructor'', ''__defineGetter__'', ''__defineSetter__'', ''hasOwnProperty'',
      ''__lookupGetter__'', ''__lookupSetter__'', ''isPrototypeOf'', ''propertyIsEnumerable'',
      ''toString'', ''valueOf'', ''__proto__'', ''toLocaleString'']"

definition push_type_error :: js_error where
  "push_type_error = JsError ''TypeError'' (Some ''stageGroups[stageName].push is not a function'')"

fun push_group :: "string \<Rightarrow> 'a \<Rightarrow> (string \<times> 'a list) list \<Rightarrow> (string \<times> 'a list) list" where
  "push_group k x [] = [(k, [x])]"
| "push_group k x ((k', xs) # groups) =
     (if k' = k then (k', xs @ [x]) # groups else (k', xs) # push_group k x groups)"

text \<open>
  \<open>Object.entries\<close> lists the keys that are array indices first, in ascending numeric
  order, then the other keys in the order of their insertion.
\<close>

definition is_array_index :: "string \<Rightarrow> bool" where
  "is_array_index k =
     (k \<noteq> [] \<and> list_all is_digit k \<and> (k = ''0'' \<or> hd k \<noteq> CHR ''0'') \<and> parseInt k < 4294967295)"

definition object_entries :: "(string \<times> 'a) list \<Rightarrow> (string \<times> 'a) list" where
  "object_entries kvs =
     sort_key (\<lambda>kv. parseInt (fst kv)) (filter (\<lambda>kv. is_array_index (fst kv)) kvs)
     @ filter (\<lambda>kv. \<not> is_array_index (fst kv)) kvs"

definition stage_name_of :: "ghl_pipeline \<Rightarrow> ghl_opportunity \<Rightarrow> string option" where
  "stage_name_of p opp =
     js_or (Option.bind (Option.bind (stages p) (List.find (\<lambda>s. stage_id s = pipelineStageId opp)))
              stage_name)
           (pipelineStageId opp)"

definition stuck_item_of :: "int \<Rightarrow> (string \<Rightarrow> int option) \<Rightarrow> ghl_opportunity \<Rightarrow> stuck_item" where
  "stuck_item_of render_now parseDate opp =
     \<lparr>stuck_id = opp_id opp,
      stuck_name = js_or (opp_name opp) (contactName opp),
      stuck_value = map_option to_double (monetaryValue opp),
      stuckSince = timeAgo render_now parseDate
                     (js_or (js_or (lastStageChangeAt opp) (updatedAt opp)) (createdAt opp))\<rparr>"

text \<open>
  The cutoff of this check is a \<open>Date\<close> that is never turned into text: \<open>None\<close> is
  the Invalid Date of a time out of range, with which \<open>new Date(stageDate) < cutoff\<close>
  is false for every opportunity.
\<close>

definition stuck_cutoff :: "int \<Rightarrow> int \<Rightarrow> int option" where
  "stuck_cutoff now stuckDays =
     (if valid_time (now - stuckDays * 86400000) then Some (now - stuckDays * 86400000) else None)"

definition is_stuck :: "(string \<Rightarrow> int option) \<Rightarrow> int option \<Rightarrow> ghl_opportunity \<Rightarrow> bool" where
  "is_stuck parseDate cutoff opp =
     (let stageDate = js_or (js_or (lastStageChangeAt opp) (updatedAt opp)) (createdAt opp)
      in str_truthy stageDate
         \<and> (case cutoff of None \<Rightarrow> False | Some t \<Rightarrow> date_before parseDate stageDate t))"

fun group_stuck ::
    "int \<Rightarrow> (string \<Rightarrow> int option) \<Rightarrow> int option \<Rightarrow> ghl_pipeline \<Rightarrow> ghl_opportunity list
      \<Rightarrow> (string \<times> stuck_item list) list \<Rightarrow> js_error + (string \<times> stuck_item list) list" where
  "group_stuck render_now parseDate cutoff p [] stageGroups = Inr stageGroups"
| "group_stuck render_now parseDate cutoff p (opp # opps) stageGroups =
     (if is_stuck parseDate cutoff opp
      then
        if property_key (stage_name_of p opp) \<in> set object_prototype_keys
        then Inl push_type_error
        else group_stuck render_now parseDate cutoff p opps
               (push_group (property_key (stage_name_of p opp))
                  (stuck_item_of render_now parseDate opp) stageGroups)
      else group_stuck render_now parseDate cutoff p opps stageGroups)"

text \<open>\<open>o.value || 0\<close>, and the \<open>reduce\<close> that adds these up from 0, left to right.\<close>

definition value_or_zero :: "stuck_item \<Rightarrow> js_number" where
  "value_or_zero ob =
     (case stuck_value ob of
        None \<Rightarrow> Num 0
      | Some v \<Rightarrow> if number_truthy v then v else Num 0)"

definition bottleneck_of :: "ghl_pipeline \<Rightarrow> string \<times> stuck_item list \<Rightarrow> bottleneck" where
  "bottleneck_of p entry =
     \<lparr>pipeline = pipeline_name p,
      stage = fst entry,
      stuck_count = length (snd entry),
      totalValue = foldl (\<lambda>sum ob. js_add sum (value_or_zero ob)) (Num 0) (snd entry),
      stuck_items = take 5 (snd entry)\<rparr>"

text \<open>
  The loop over the pipelines. \<open>searchOpportunities p\<close> is what the fetch for pipeline
  \<open>p\<close> settled to, with the \<open>opportunities\<close> array taken out of the parsed content.
  Nothing here catches: the first failure ends the check.
\<close>

fun scan_pipelines ::
    "int \<Rightarrow> (string \<Rightarrow> int option) \<Rightarrow> int option
      \<Rightarrow> (ghl_pipeline \<Rightarrow> js_error + ghl_opportunity list)
      \<Rightarrow> ghl_pipeline list \<Rightarrow> bottleneck list \<Rightarrow> js_error + bottleneck list" where
  "scan_pipelines render_now parseDate cutoff searchOpportunities [] found = Inr found"
| "scan_pipelines render_now parseDate cutoff searchOpportunities (p # ps) found =
     (case searchOpportunities p of
        Inl e \<Rightarrow> Inl e
      | Inr opps \<Rightarrow>
          (case group_stuck render_now parseDate cutoff p opps [] of
             Inl e \<Rightarrow> Inl e
           | Inr stageGroups \<Rightarrow>
               scan_pipelines render_now parseDate cutoff searchOpportunities ps
                 (found @ map (bottleneck_of p)
                            (filter (\<lambda>entry. length (snd entry) > 0) (object_entries stageGroups)))))"

text \<open>
  \<open>numberText\<close> is the engine's conversion of a number to text, which the template
  literal \<open>`${stuckDays}d`\<close> applies to a threshold of any size; thresholds are whole
  numbers.
\<close>

definition checkPipelineBottlenecks ::
    "int \<Rightarrow> int \<Rightarrow> (string \<Rightarrow> int option) \<Rightarrow> (int \<Rightarrow> string) \<Rightarrow> monitor_thresholds option
      \<Rightarrow> js_error + ghl_pipeline list \<Rightarrow> (ghl_pipeline \<Rightarrow> js_error + ghl_opportunity list)
      \<Rightarrow> js_error + bottleneck_finding" where
  "checkPipelineBottlenecks now render_now parseDate numberText thresholds getPipelines
       searchOpportunities =
     (let stuckDays = num_or (Option.bind thresholds stuck_opportunity_days) 7;
          cutoff = stuck_cutoff now stuckDays
      in case getPipelines of
           Inl e \<Rightarrow> Inl e
         | Inr pipelines \<Rightarrow>
             (case scan_pipelines render_now parseDate cutoff searchOpportunities
                     (take 3 pipelines) [] of
                Inl e \<Rightarrow> Inl e
              | Inr found \<Rightarrow>
                  Inr \<lparr>pb_check = ''pipeline_bottlenecks'',
                       pb_count = foldl (\<lambda>sum b. sum + stuck_count b) 0 found,
                       pb_threshold = numberText stuckDays @ ''d'',
                       bottlenecks = found\<rparr>))"

subsection \<open>\<open>runAllChecks\<close>\<close>

text \<open>
  A check's entry in the report: the value its promise fulfilled with, or
  \<open>{ check: name, error: reason?.message }\<close> when it rejected.
\<close>

datatype 'a check_entry = Finding 'a | CheckError string "string option"

definition settled_entry :: "string \<Rightarrow> js_error + 'a \<Rightarrow> 'a check_entry" where
  "settled_entry name settled =
     (case settled of Inr v \<Rightarrow> Finding v | Inl reason \<Rightarrow> CheckError name (message reason))"

record location_config =
  location_name :: "string option"
  token :: string
  locationId :: string
  location_thresholds :: "monitor_thresholds option"

record ('s, 'f, 'b, 'r) report =
  location :: "string option"
  staleLeads :: "'s check_entry"
  missedFollowups :: "'f check_entry"
  pipelineBottlenecks :: "'b check_entry"
  slowResponses :: "'r check_entry"

definition location_not_found :: "string \<Rightarrow> js_error" where
  "location_not_found alias =
     JsError ''Error''
       (Some (''Location '' @ [CHR 0x27] @ alias @ [CHR 0x27] @ '' not found in config''))"

text \<open>
  \<open>locations\<close> is \<open>config.locations\<close>; \<open>createActions\<close> can throw (a missing
  token, an unset environment variable). Each of the four checks is a function of the
  action client and the location's configuration whose value is what its promise
  settles to; \<open>Promise.allSettled\<close> waits for the four and never rejects. The report's
  \<open>timestamp\<close> and its \<open>summary\<close>, a text rendered from the four entries, are left
  out of the record.
\<close>

definition runAllChecks ::
    "(string \<Rightarrow> location_config option) \<Rightarrow> string \<Rightarrow> (location_config \<Rightarrow> js_error + 'a)
      \<Rightarrow> ('a \<Rightarrow> location_config \<Rightarrow> js_error + 's) \<Rightarrow> ('a \<Rightarrow> location_config \<Rightarrow> js_error + 'f)
      \<Rightarrow> ('a \<Rightarrow> location_config \<Rightarrow> js_error + 'b) \<Rightarrow> ('a \<Rightarrow> location_config \<Rightarrow> js_error + 'r)
      \<Rightarrow> js_error + ('s, 'f, 'b, 'r) report" where
  "runAllChecks locations locationAlias createActions
       checkStale checkFollowups checkBottlenecks checkResponses =
     (case locations locationAlias of
        None \<Rightarrow> Inl (location_not_found locationAlias)
      | Some locationConfig \<Rightarrow>
          (case createActions locationConfig of
             Inl e \<Rightarrow> Inl e
           | Inr actions \<Rightarrow>
               Inr \<lparr>location = location_name locationConfig,
                    staleLeads = settled_entry ''stale_leads'' (checkStale actions locationConfig),
                    missedFollowups =
                      settled_entry ''missed_followups'' (checkFollowups actions locationConfig),
                    pipelineBottlenecks =
                      settled_entry ''pipeline_bottlenecks'' (checkBottlenecks actions locationConfig),
                    slowResponses =
                      settled_entry ''slow_responses'' (checkResponses actions locationConfig)\<rparr>))"

subsection \<open>Sample data\<close>

text \<open>
  The clock of the examples reads 1700000000000 (2023-11-14T22:13:20Z);
  \<open>sample_date\<close> gives \<open>new Date\<close> on the date strings they use.
\<close>

definition sample_now :: int where
  "sample_now = 1700000000000"

definition sample_date :: "string \<Rightarrow> int option" where
  "sample_date s =
     (if s = ''2023-11-12T20:13:20Z'' then Some 1699820000000
      else if s = ''2023-11-13T06:13:20Z'' then Some 1699856000000
      else if s = ''2023-11-14T21:13:20Z'' then Some 1699996400000
      else if s = ''2023-11-05T22:13:20Z'' then Some 1699222400000
      else if s = ''2023-11-06T22:13:20Z'' then Some 1699308800000
      else None)"

definition sample_contact :: "string \<Rightarrow> string option \<Rightarrow> string option \<Rightarrow> ghl_contact" where
  "sample_contact cid activity updated =
     \<lparr>contact_id = cid, firstName = Some ''John'', lastName = Some ''Doe'',
      email = Some ''john@example.com'', phone = None, tags = Some [''AI-Audit-Lead''],
      lastActivity = activity, dateUpdated = updated, dateAdded = None\<rparr>"

definition sample_pipeline :: ghl_pipeline where
  "sample_pipeline =
     \<lparr>pipeline_id = ''pipe1'', pipeline_name = Some ''Strategic AI Audit Pipeline'',
      stages = Some [\<lparr>stage_id = Some ''stage1'', stage_name = Some ''Audit Requested''\<rparr>,
                     \<lparr>stage_id = Some ''stage2'', stage_name = Some ''Audit In Progress''\<rparr>]\<rparr>"

definition sample_opportunity :: "string \<Rightarrow> rat option \<Rightarrow> string \<Rightarrow> ghl_opportunity" where
  "sample_opportunity oid amount changed =
     \<lparr>opp_id = oid, opp_name = Some ''AI Audit'', contactName = None,
      pipelineStageId = Some ''stage2'', monetaryValue = amount,
      lastStageChangeAt = Some changed, updatedAt = None, createdAt = None\<rparr>"

definition sample_locations :: "string \<Rightarrow> location_config option" where
  "sample_locations alias =
     (if alias = ''main''
      then Some \<lparr>location_name = Some ''Main Agency'', token = ''pit-1'', locationId = ''loc-1'',
                  location_thresholds = None\<rparr>
      else None)"

section \<open>The credential encryption of \<open>cli/encryption.js\<close>\<close>

subsection \<open>Strings and their UTF-8 bytes\<close>

text \<open>
  The plaintext, the password and the base64 text are JavaScript strings taken as what
  they are, sequences of UTF-16 code units (numbers below \<open>0x10000\<close>), and a
  \<open>Buffer\<close> is a sequence of bytes (numbers below \<open>0x100\<close>). Encoding a string as \<open>'utf8'\<close> pairs a high surrogate with the low
  surrogate after it into one code point and turns a surrogate left alone into U+FFFD.
\<close>

type_synonym js_string = "nat list"
type_synonym buffer = "nat list"

definition is_high_surrogate :: "nat \<Rightarrow> bool" where
  "is_high_surrogate u = (0xD800 \<le> u \<and> u \<le> 0xDBFF)"

definition is_low_surrogate :: "nat \<Rightarrow> bool" where
  "is_low_surrogate u = (0xDC00 \<le> u \<and> u \<le> 0xDFFF)"

definition lone_unit :: "nat \<Rightarrow> nat" where
  "lone_unit u = (if is_high_surrogate u \<or> is_low_surrogate u then 0xFFFD else u)"

fun code_points :: "js_string \<Rightarrow> nat list" where
  "code_points [] = []"
| "code_points [u] = [lone_unit u]"
| "code_points (u # v # us) =
     (if is_high_surrogate u \<and> is_low_surrogate v
      then (0x10000 + (u - 0xD800) * 0x400 + (v - 0xDC00)) # code_points us
      else lone_unit u # code_points (v # us))"

definition utf8_of_code_point :: "nat \<Rightarrow> buffer" where
  "utf8_of_code_point cp =
     (if cp < 0x80 then [cp]
      else if cp < 0x800 then [0xC0 + cp div 0x40, 0x80 + cp mod 0x40]
      else if cp < 0x10000
      then [0xE0 + cp div 0x1000, 0x80 + cp div 0x40 mod 0x40, 0x80 + cp mod 0x40]
      else [0xF0 + cp div 0x40000, 0x80 + cp div 0x1000 mod 0x40,
            0x80 + cp div 0x40 mod 0x40, 0x80 + cp mod 0x40])"

definition utf8_encode :: "js_string \<Rightarrow> buffer" where
  "utf8_encode s = concat (map utf8_of_code_point (code_points s))"

text \<open>
  Decoding bytes as \<open>'utf8'\<close>: the decoder of the Encoding Standard, with the code
  point gathered so far, the number of continuation bytes still needed and the bounds
  the next byte must keep. A byte that breaks a sequence gives U+FFFD and is read again
  as the start of the next one; input that ends inside a sequence gives U+FFFD. A byte
  order mark is kept.
\<close>

function utf8_code_points :: "buffer \<Rightarrow> nat \<Rightarrow> nat \<Rightarrow> nat \<Rightarrow> nat \<Rightarrow> nat list" where
  "utf8_code_points [] cp needed lower upper = (if needed = 0 then [] else [0xFFFD])"
| "utf8_code_points (b # bs) cp needed lower upper =
     (if needed = 0 then
        (if b \<le> 0x7F then b # utf8_code_points bs 0 0 0x80 0xBF
         else if 0xC2 \<le> b \<and> b \<le> 0xDF then utf8_code_points bs (b - 0xC0) 1 0x80 0xBF
         else if 0xE0 \<le> b \<and> b \<le> 0xEF
         then utf8_code_points bs (b - 0xE0) 2
                (if b = 0xE0 then 0xA0 else 0x80) (if b = 0xED then 0x9F else 0xBF)
         else if 0xF0 \<le> b \<and> b \<le> 0xF4
         then utf8_code_points bs (b - 0xF0) 3
                (if b = 0xF0 then 0x90 else 0x80) (if b = 0xF4 then 0x8F else 0xBF)
         else 0xFFFD # utf8_code_points bs 0 0 0x80 0xBF)
      else if b < lower \<or> upper < b then 0xFFFD # utf8_code_points (b # bs) 0 0 0x80 0xBF
      else if needed = 1 then (cp * 0x40 + (b - 0x80)) # utf8_code_points bs 0 0 0x80 0xBF
      else utf8_code_points bs (cp * 0x40 + (b - 0x80)) (needed - 1) 0x80 0xBF)"
  by pat_completeness auto
termination
  by (relation "measure (\<lambda>(bs, cp, needed, lower, upper).
                  2 * length bs + (if needed = 0 then 0 else 1))") auto

declare utf8_code_points.simps [simp del]

definition utf16_units :: "nat \<Rightarrow> js_string" where
  "utf16_units cp =
     (if cp < 0x10000 then [cp]
      else [0xD800 + (cp - 0x10000) div 0x400, 0xDC00 + (cp - 0x10000) mod 0x400])"

definition utf8_decode :: "buffer \<Rightarrow> js_string" where
  "utf8_decode bs = concat (map utf16_units (utf8_code_points bs 0 0 0x80 0xBF))"

text \<open>A well-formed string: code units in which every surrogate is half of a pair.\<close>

fun well_formed :: "js_string \<Rightarrow> bool" where
  "well_formed [] = True"
| "well_formed [u] = (u < 0x10000 \<and> \<not> is_high_surrogate u \<and> \<not> is_low_surrogate u)"
| "well_formed (u # v # us) =
     (if is_high_surrogate u then is_low_surrogate v \<and> well_formed us
      else u < 0x10000 \<and> \<not> is_low_surrogate u \<and> well_formed (v # us))"

text \<open>A Unicode scalar value: a code point that is not a surrogate.\<close>

definition scalar :: "nat \<Rightarrow> bool" where
  "scalar cp = (cp < 0xD800 \<or> (0xE000 \<le> cp \<and> cp < 0x110000))"

subsection \<open>Encrypting and decrypting\<close>

text \<open>
  The primitives of \<open>node:crypto\<close> and the base64 coding of \<open>Buffer\<close> are the
  platform's, not this repository's: the functions below take them as a record.
  \<open>cipher_gcm key iv data\<close> is the ciphertext of \<open>update\<close> and \<open>final\<close> with the
  tag of \<open>getAuthTag\<close>; \<open>decipher_gcm key iv tag data\<close> is the plaintext, or the
  error \<open>final\<close> throws when the tag does not authenticate. \<open>cipher.update\<close> is given
  the plaintext string with the encoding \<open>'utf8'\<close>, so the data enciphered are
  \<open>utf8_encode plaintext\<close>, and \<open>toString('utf8')\<close> of the deciphered bytes is
  \<open>utf8_decode\<close>.
\<close>

record node_platform =
  pbkdf2Sync :: "js_string \<Rightarrow> buffer \<Rightarrow> nat \<Rightarrow> nat \<Rightarrow> string \<Rightarrow> buffer"
  cipher_gcm :: "buffer \<Rightarrow> buffer \<Rightarrow> buffer \<Rightarrow> buffer \<times> buffer"
  decipher_gcm :: "buffer \<Rightarrow> buffer \<Rightarrow> buffer \<Rightarrow> buffer \<Rightarrow> js_error + buffer"
  base64_string :: "buffer \<Rightarrow> js_string"
  base64_bytes :: "js_string \<Rightarrow> buffer"

definition KEY_LENGTH :: nat where "KEY_LENGTH = 32"
definition IV_LENGTH :: nat where "IV_LENGTH = 16"
definition SALT_LENGTH :: nat where "SALT_LENGTH = 32"
definition TAG_LENGTH :: nat where "TAG_LENGTH = 16"
definition PBKDF2_ITERATIONS :: nat where "PBKDF2_ITERATIONS = 100000"
definition PBKDF2_DIGEST :: string where "PBKDF2_DIGEST = ''sha512''"

text \<open>\<open>buf.subarray(start, end)\<close>, which clamps both ends to the buffer.\<close>

definition subarray :: "buffer \<Rightarrow> nat \<Rightarrow> nat \<Rightarrow> buffer" where
  "subarray buf start stop = take (stop - start) (drop start buf)"

definition deriveKey :: "node_platform \<Rightarrow> js_string \<Rightarrow> buffer \<Rightarrow> buffer" where
  "deriveKey node password salt =
     pbkdf2Sync node password salt PBKDF2_ITERATIONS KEY_LENGTH PBKDF2_DIGEST"

text \<open>
  \<open>salt\<close> and \<open>iv\<close> are what \<open>randomBytes(SALT_LENGTH)\<close> and
  \<open>randomBytes(IV_LENGTH)\<close> returned.
\<close>

definition encrypt :: "node_platform \<Rightarrow> buffer \<Rightarrow> buffer \<Rightarrow> js_string \<Rightarrow> js_string \<Rightarrow> js_string" where
  "encrypt node salt iv plaintext password =
     (let key = deriveKey node password salt;
          (encrypted, tag) = cipher_gcm node key iv (utf8_encode plaintext);
          packed = salt @ iv @ tag @ encrypted
      in base64_string node packed)"

definition decrypt :: "node_platform \<Rightarrow> js_string \<Rightarrow> js_string \<Rightarrow> js_error + js_string" where
  "decrypt node data password =
     (let packed = base64_bytes node data;
          salt = subarray packed 0 SALT_LENGTH;
          iv = subarray packed SALT_LENGTH (SALT_LENGTH + IV_LENGTH);
          tag = subarray packed (SALT_LENGTH + IV_LENGTH) (SALT_LENGTH + IV_LENGTH + TAG_LENGTH);
          ciphertext = drop (SALT_LENGTH + IV_LENGTH + TAG_LENGTH) packed;
          key = deriveKey node password salt
      in case decipher_gcm node key iv tag ciphertext of
           Inl e \<Rightarrow> Inl e
         | Inr decrypted \<Rightarrow> Inr (utf8_decode decrypted))"

text \<open>
  A stand-in platform for the examples: it satisfies what the round trip asks of the
  real one (its cipher reverses the data and tags it with 16 fixed bytes, its base64
  text has one code unit for each byte) and makes no claim to secrecy.
\<close>

definition sample_node :: node_platform where
  "sample_node =
     \<lparr>pbkdf2Sync = (\<lambda>password salt iterations keylen digest. take keylen (salt @ replicate keylen 0x6B)),
      cipher_gcm = (\<lambda>key iv data. (rev data, replicate 16 0x74)),
      decipher_gcm = (\<lambda>key iv tag data.
         if tag = replicate 16 0x74 then Inr (rev data)
         else Inl (JsError ''Error'' (Some ''Unsupported state or unable to authenticate data''))),
      base64_string = (\<lambda>b. b),
      base64_bytes = (\<lambda>s. s)\<rparr>"

text \<open>The password \<open>'secret'\<close> and the two plaintexts of the examples: one well formed, with
  a surrogate pair, and \<open>'a\ud800b'\<close>, whose surrogate stands alone.\<close>

definition sample_password :: js_string where
  "sample_password = [0x73, 0x65, 0x63, 0x72, 0x65, 0x74]"

definition sample_token :: js_string where
  "sample_token = [0x70, 0x69, 0x74, 0x2D, 0xE9, 0x20AC, 0xD83D, 0xDE00]"

definition lone_surrogate_text :: js_string where
  "lone_surrogate_text = [0x61, 0xD800, 0x62]"

section \<open>Properties of the rate limiter\<close>

lemma show_nat_small: "n < 10 \<Longrightarrow> show_nat n = [''0123456789'' ! n]"
  by (subst show_nat.simps) simp

lemma show_nat_big:
  "\<not> n < 10 \<Longrightarrow> show_nat n = show_nat (n div 10) @ [''0123456789'' ! (n mod 10)]"
  by (subst show_nat.simps) simp

lemma daily_limit_error_default:
  "daily_limit_error default_limiter_opts =
     JsError ''Error'' (Some ''Daily rate limit reached (200000)'')"
  by (simp add: daily_limit_error_def default_limiter_opts_def show_int_def
      show_nat_small show_nat_big)

lemma acquire_enter_daily_cap:
  assumes "maxPerDay opts \<le> dayCount s" and "t_day - dayStart s < 86400000"
  shows "acquire_enter opts t_day t_window t_wait s = (Threw (daily_limit_error opts), s)"
  using assms by (simp add: acquire_enter_def resetDayIfNeeded_def)

text \<open>
  Claim C2. When the daily counter is at or above \<open>maxPerDay\<close> and the day window has
  not elapsed at the call's first reading of the clock, \<open>acquire()\<close> throws at once: its
  synchronous part ends in the \<open>throw\<close> and never reaches the \<open>await\<close>, and the
  limiter is left exactly as it was (both counters and both window starts). The error is
  the plain \<open>Error\<close> with the message \<open>Daily rate limit reached (maxPerDay)\<close>, which
  is the quota error of the design's error taxonomy.
\<close>

theorem acquire_daily_cap_rejects:
  assumes "maxPerDay opts \<le> dayCount s" and "at_day c - dayStart s < 86400000"
  shows "acquire_enter opts (at_day c) (at_window c) (at_wait c) s
           = (Threw (daily_limit_error opts), s)
         \<and> acquire opts c s = (Rejected (daily_limit_error opts), s)"
  using assms by (simp add: acquire_def acquire_enter_daily_cap)

theorem acquire_daily_cap_rejects_witness:
  "acquire default_limiter_opts \<lparr>at_day = 5000, at_window = 5000, at_wait = 5000, at_wake = 5000\<rparr>
      \<lparr>windowStart = 0, windowCount = 3, dayStart = 0, dayCount = 200000\<rparr>
    = (Rejected (JsError ''Error'' (Some ''Daily rate limit reached (200000)'')),
       \<lparr>windowStart = 0, windowCount = 3, dayStart = 0, dayCount = 200000\<rparr>)"
  using acquire_daily_cap_rejects [of default_limiter_opts
      "\<lparr>windowStart = 0, windowCount = 3, dayStart = 0, dayCount = 200000\<rparr>"
      "\<lparr>at_day = 5000, at_window = 5000, at_wait = 5000, at_wake = 5000\<rparr>"]
  by (simp add: daily_limit_error_default) (simp add: default_limiter_opts_def)






text \<open>
  Claim C8, as the code has it. \<open>stats()\<close> first runs the two lazy resets, so it does
  write to the limiter when a window has elapsed: a short window whose elapsed time is at
  least \<open>windowMs\<close> gets its start set to the current time and its counter set to 0,
  and so does the day after 86400000 ms; a window that has not elapsed keeps its start
  and its counter. The three numbers it returns are computed from the counters after
  the resets. When neither window has elapsed, the four variables are the same before
  and after the call.
\<close>

theorem stats_resets_then_reports:
  "snd (stats opts t_window t_day s)
      = \<lparr>windowStart = (if windowMs opts \<le> t_window - windowStart s then t_window
                        else windowStart s),
         windowCount = (if windowMs opts \<le> t_window - windowStart s then 0 else windowCount s),
         dayStart = (if 86400000 \<le> t_day - dayStart s then t_day else dayStart s),
         dayCount = (if 86400000 \<le> t_day - dayStart s then 0 else dayCount s)\<rparr>
   \<and> fst (stats opts t_window t_day s)
      = \<lparr>windowRemaining =
           maxPerWindow opts
             - (if windowMs opts \<le> t_window - windowStart s then 0 else windowCount s),
         dayRemaining =
           maxPerDay opts - (if 86400000 \<le> t_day - dayStart s then 0 else dayCount s),
         stats_dayCount = (if 86400000 \<le> t_day - dayStart s then 0 else dayCount s)\<rparr>
   \<and> (t_window - windowStart s < windowMs opts \<and> t_day - dayStart s < 86400000
        \<longrightarrow> snd (stats opts t_window t_day s) = s)"
  by (simp add: stats_def Let_def resetDayIfNeeded_def resetWindowIfNeeded_def)

theorem stats_resets_then_reports_witness:
  "stats default_limiter_opts 5000 5000
      \<lparr>windowStart = 0, windowCount = 5, dayStart = 0, dayCount = 7\<rparr>
    = (\<lparr>windowRemaining = 95, dayRemaining = 199993, stats_dayCount = 7\<rparr>,
       \<lparr>windowStart = 0, windowCount = 5, dayStart = 0, dayCount = 7\<rparr>)
   \<and> stats default_limiter_opts 86400001 86400002
      \<lparr>windowStart = 0, windowCount = 5, dayStart = 0, dayCount = 7\<rparr>
    = (\<lparr>windowRemaining = 100, dayRemaining = 200000, stats_dayCount = 0\<rparr>,
       \<lparr>windowStart = 86400001, windowCount = 0, dayStart = 86400002, dayCount = 0\<rparr>)"
  using stats_resets_then_reports [of default_limiter_opts 5000 5000
      "\<lparr>windowStart = 0, windowCount = 5, dayStart = 0, dayCount = 7\<rparr>"]
    stats_resets_then_reports [of default_limiter_opts 86400001 86400002
      "\<lparr>windowStart = 0, windowCount = 5, dayStart = 0, dayCount = 7\<rparr>"]
  by (simp add: default_limiter_opts_def prod_eq_iff)

text \<open>
  The claim as the specification words it (no state is written, for every state) fails
  once a window has elapsed: a call of \<open>stats()\<close> 10 s after the short window's start
  clears a window counter of 5 and moves the window's start, and a call a day after the
  day's start clears the day counter as well.
\<close>

theorem stats_mutates_counterexample:
  "snd (stats default_limiter_opts 10000 10000
          \<lparr>windowStart = 0, windowCount = 5, dayStart = 0, dayCount = 7\<rparr>)
     = \<lparr>windowStart = 10000, windowCount = 0, dayStart = 0, dayCount = 7\<rparr>
   \<and> snd (stats default_limiter_opts 10000 10000
          \<lparr>windowStart = 0, windowCount = 5, dayStart = 0, dayCount = 7\<rparr>)
     \<noteq> \<lparr>windowStart = 0, windowCount = 5, dayStart = 0, dayCount = 7\<rparr>
   \<and> snd (stats default_limiter_opts 86400000 86400000
          \<lparr>windowStart = 0, windowCount = 5, dayStart = 0, dayCount = 7\<rparr>)
     = \<lparr>windowStart = 86400000, windowCount = 0, dayStart = 86400000, dayCount = 0\<rparr>"
  by (simp add: stats_def default_limiter_opts_def resetDayIfNeeded_def
      resetWindowIfNeeded_def)

section \<open>Properties of the retry wrapper\<close>

lemma retry_loop_nontransient:
  assumes "attempt \<le> maxRetries" and "fn attempt = Inl e" and "\<not> shouldRetry e"
  shows "retry_loop fn maxRetries baseDelayMs shouldRetry random attempt lastError
           = (Rethrown e, [Invoked attempt])"
  using assms by (subst retry_loop.simps) simp

lemma retry_loop_exhausted:
  assumes "attempt \<le> maxRetries"
    and "\<forall>i \<le> maxRetries. fn i = Inl (errs i)"
    and "\<forall>i < maxRetries. shouldRetry (errs i)"
  shows "fst (retry_loop fn maxRetries baseDelayMs shouldRetry random attempt lastError)
           = Rethrown (errs maxRetries)
       \<and> invocations (snd (retry_loop fn maxRetries baseDelayMs shouldRetry random attempt lastError))
           = [attempt..<Suc maxRetries]"
  using assms
proof (induction fn maxRetries baseDelayMs shouldRetry random attempt lastError
    rule: retry_loop.induct)
  case (1 fn maxRetries baseDelayMs shouldRetry random attempt lastError)
  have fails: "fn attempt = Inl (errs attempt)"
    using "1.prems" by simp
  show ?case
  proof (cases "attempt = maxRetries")
    case True
    then show ?thesis
      using fails by (subst (1 2) retry_loop.simps) simp
  next
    case False
    then have lt: "attempt < maxRetries"
      using "1.prems"(1) by simp
    then have again: "shouldRetry (errs attempt)"
      using "1.prems"(3) by simp
    have IH: "fst (retry_loop fn maxRetries baseDelayMs shouldRetry random (attempt + 1)
                    (Some (errs attempt))) = Rethrown (errs maxRetries)
        \<and> invocations (snd (retry_loop fn maxRetries baseDelayMs shouldRetry random
                    (attempt + 1) (Some (errs attempt)))) = [attempt + 1..<Suc maxRetries]"
      using "1.IH" [OF "1.prems"(1) fails _ refl] lt again "1.prems"(2,3) False by simp
    show ?thesis
      using IH lt again fails False
      by (subst (1 2) retry_loop.simps) (simp add: split_beta upt_conv_Cons)
  qed
qed

lemma retry_loop_retries_only_transient:
  assumes "Invoked (Suc i) \<in> set (snd (retry_loop fn maxRetries baseDelayMs shouldRetry
              random attempt lastError))"
    and "attempt \<le> i"
  shows "i < maxRetries \<and> (\<exists>e. fn i = Inl e \<and> shouldRetry e)"
  using assms
proof (induction fn maxRetries baseDelayMs shouldRetry random attempt lastError
    rule: retry_loop.induct)
  case (1 fn maxRetries baseDelayMs shouldRetry random attempt lastError)
  show ?case
  proof (cases "attempt \<le> maxRetries")
    case False
    then show ?thesis
      using "1.prems"(1) by (subst (asm) retry_loop.simps) simp
  next
    case in_loop: True
    show ?thesis
    proof (cases "fn attempt")
      case (Inr v)
      then show ?thesis
        using "1.prems" in_loop by (subst (asm) retry_loop.simps) simp
    next
      case (Inl err)
      show ?thesis
      proof (cases "attempt = maxRetries \<or> \<not> shouldRetry err")
        case True
        then show ?thesis
          using "1.prems" in_loop Inl by (subst (asm) retry_loop.simps) auto
      next
        case False
        then have mem: "Invoked (Suc i) \<in> set (snd (retry_loop fn maxRetries baseDelayMs
                          shouldRetry random (attempt + 1) (Some err)))"
          using "1.prems" in_loop Inl
          by (subst (asm) retry_loop.simps) (auto simp: split_beta)
        show ?thesis
        proof (cases "attempt = i")
          case True
          then show ?thesis
            using False Inl in_loop by auto
        next
          case neq: False
          then have "attempt + 1 \<le> i"
            using "1.prems"(2) by simp
          then show ?thesis
            using "1.IH" [OF in_loop Inl False refl mem] by simp
        qed
      qed
    qed
  qed
qed

lemma shouldRetry_default_iff:
  "shouldRetry_default e \<longleftrightarrow>
     (\<exists>m. message e = Some m \<and>
        (str_includes m ''fetch failed''
         \<or> (\<exists>k. http_status m = Some k \<and> (k = 429 \<or> (500 \<le> k \<and> k < 600)))))"
  by (auto simp: shouldRetry_default_def split: option.splits)

text \<open>
  Claim C4. \<open>withRetry\<close> calls the operation again only after a failure that the
  predicate classifies as transient and while retries are left: a call numbered \<open>i + 1\<close>
  in the trace means that call \<open>i\<close> failed with an error for which \<open>shouldRetry\<close>
  holds. A first failure that is not transient is rethrown at once: one call, no delay.
  When every attempt fails and all but the last are transient, the error of the last
  attempt is rethrown as it is (the same value, so the same type and message) after
  \<open>maxRetries + 1\<close> calls. The defaults are three retries (four calls) and the
  predicate that holds for a message containing \<open>fetch failed\<close> (the network-level
  failure of \<open>fetch\<close>), or whose first \<open>HTTP <digits>\<close> is 429 or from 500 to 599.
\<close>

theorem withRetry_policy:
  "(\<forall>e. fn 0 = Inl e \<and> \<not> shouldRetry e \<longrightarrow>
        withRetry fn maxRetries baseDelayMs shouldRetry random = (Rethrown e, [Invoked 0]))
   \<and> (\<forall>i. Invoked (Suc i) \<in> set (snd (withRetry fn maxRetries baseDelayMs shouldRetry random))
        \<longrightarrow> i < maxRetries \<and> (\<exists>e. fn i = Inl e \<and> shouldRetry e))
   \<and> ((\<forall>i \<le> maxRetries. fn i = Inl (errs i)) \<and> (\<forall>i < maxRetries. shouldRetry (errs i))
        \<longrightarrow> fst (withRetry fn maxRetries baseDelayMs shouldRetry random)
              = Rethrown (errs maxRetries)
          \<and> invocations (snd (withRetry fn maxRetries baseDelayMs shouldRetry random))
              = [0..<Suc maxRetries])
   \<and> withRetry_default fn random = withRetry fn 3 1000 shouldRetry_default random
   \<and> (\<forall>e. shouldRetry_default e \<longleftrightarrow>
        (\<exists>m. message e = Some m \<and>
           (str_includes m ''fetch failed''
            \<or> (\<exists>k. http_status m = Some k \<and> (k = 429 \<or> (500 \<le> k \<and> k < 600))))))"
proof (intro conjI allI impI)
  fix e assume "fn 0 = Inl e \<and> \<not> shouldRetry e"
  then show "withRetry fn maxRetries baseDelayMs shouldRetry random = (Rethrown e, [Invoked 0])"
    unfolding withRetry_def by (intro retry_loop_nontransient) auto
next
  fix i assume "Invoked (Suc i) \<in> set (snd (withRetry fn maxRetries baseDelayMs shouldRetry random))"
  then have "i < maxRetries \<and> (\<exists>e. fn i = Inl e \<and> shouldRetry e)"
    unfolding withRetry_def by (rule retry_loop_retries_only_transient) simp
  then show "i < maxRetries" and "\<exists>e. fn i = Inl e \<and> shouldRetry e"
    by auto
next
  assume h: "(\<forall>i \<le> maxRetries. fn i = Inl (errs i)) \<and> (\<forall>i < maxRetries. shouldRetry (errs i))"
  have "fst (withRetry fn maxRetries baseDelayMs shouldRetry random) = Rethrown (errs maxRetries)
      \<and> invocations (snd (withRetry fn maxRetries baseDelayMs shouldRetry random))
          = [0..<Suc maxRetries]"
    unfolding withRetry_def using h by (intro retry_loop_exhausted) auto
  then show "fst (withRetry fn maxRetries baseDelayMs shouldRetry random) = Rethrown (errs maxRetries)"
    and "invocations (snd (withRetry fn maxRetries baseDelayMs shouldRetry random)) = [0..<Suc maxRetries]"
    by auto
next
  show "withRetry_default fn random = withRetry fn 3 1000 shouldRetry_default random"
    by (simp add: withRetry_default_def)
next
  fix e show "shouldRetry_default e \<longleftrightarrow>
        (\<exists>m. message e = Some m \<and>
           (str_includes m ''fetch failed''
            \<or> (\<exists>k. http_status m = Some k \<and> (k = 429 \<or> (500 \<le> k \<and> k < 600)))))"
    by (rule shouldRetry_default_iff)
qed

theorem withRetry_policy_witness:
  "withRetry_default
      (\<lambda>i. Inl (JsError ''Error'' (Some ''MCP HTTP 401: Mock error'')) :: js_error + unit)
      (\<lambda>i. 0)
     = (Rethrown (JsError ''Error'' (Some ''MCP HTTP 401: Mock error'')), [Invoked 0])
   \<and> fst (withRetry_default
      (\<lambda>i. Inl (JsError ''Error'' (Some ''MCP HTTP 503: Mock error'')) :: js_error + unit)
      (\<lambda>i. 0))
     = Rethrown (JsError ''Error'' (Some ''MCP HTTP 503: Mock error''))
   \<and> invocations (snd (withRetry_default
      (\<lambda>i. Inl (JsError ''Error'' (Some ''MCP HTTP 503: Mock error'')) :: js_error + unit)
      (\<lambda>i. 0)))
     = [0, 1, 2, 3]"
proof -
  let ?e401 = "JsError ''Error'' (Some ''MCP HTTP 401: Mock error'')"
  let ?e503 = "JsError ''Error'' (Some ''MCP HTTP 503: Mock error'')"
  have no: "\<not> shouldRetry_default ?e401"
    by (simp add: shouldRetry_default_def http_status_def parseInt_def is_digit_def
        digit_value_def)
  have yes: "shouldRetry_default ?e503"
    by (simp add: shouldRetry_default_def http_status_def parseInt_def is_digit_def
        digit_value_def)
  have first: "withRetry (\<lambda>i. Inl ?e401 :: js_error + unit) 3 1000 shouldRetry_default (\<lambda>i. 0)
      = (Rethrown ?e401, [Invoked 0])"
    using no withRetry_policy [where fn = "\<lambda>i. Inl ?e401 :: js_error + unit"
        and shouldRetry = shouldRetry_default and maxRetries = 3 and baseDelayMs = 1000
        and random = "\<lambda>i. 0"]
    by blast
  have "(\<forall>i \<le> (3::nat). (\<lambda>i. Inl ?e503 :: js_error + unit) i = Inl ((\<lambda>i. ?e503) i))
      \<and> (\<forall>i < (3::nat). shouldRetry_default ((\<lambda>i. ?e503) i))"
    using yes by simp
  then have exhausted:
    "fst (withRetry (\<lambda>i. Inl ?e503 :: js_error + unit) 3 1000 shouldRetry_default (\<lambda>i. 0))
        = Rethrown ?e503
     \<and> invocations (snd (withRetry (\<lambda>i. Inl ?e503 :: js_error + unit) 3 1000
          shouldRetry_default (\<lambda>i. 0))) = [0..<Suc 3]"
    using withRetry_policy [where fn = "\<lambda>i. Inl ?e503 :: js_error + unit"
        and shouldRetry = shouldRetry_default and maxRetries = 3 and baseDelayMs = 1000
        and random = "\<lambda>i. 0" and errs = "\<lambda>i. ?e503"]
    by blast
  have upt: "[0..<Suc 3] = [0, 1, 2, 3]"
    by (simp add: upt_conv_Cons)
  show ?thesis
    unfolding withRetry_default_def using first exhausted [unfolded upt] by blast
qed

section \<open>Properties of the transport codec\<close>

lemma get_id_Some_truthy: "get_id m = Some v \<Longrightarrow> truthy m"
  by (cases m) simp_all

lemma last_matching_truthy:
  assumes "filter (\<lambda>m. get_id m = Some v) messages \<noteq> []"
  shows "truthy (last (filter (\<lambda>m. get_id m = Some v) messages))"
proof -
  have "last (filter (\<lambda>m. get_id m = Some v) messages)
          \<in> set (filter (\<lambda>m. get_id m = Some v) messages)"
    using assms by (rule last_in_set)
  then show ?thesis
    by (simp add: get_id_Some_truthy)
qed

lemma select_response_no_null:
  assumes "JNull \<notin> set messages" and "messages \<noteq> [] \<longrightarrow> truthy (last messages)"
  shows "select_response messages (Some rid) =
           Inr (if filter (\<lambda>m. get_id m = Some (JNum rid)) messages \<noteq> []
                then last (filter (\<lambda>m. get_id m = Some (JNum rid)) messages)
                else if messages \<noteq> [] then last messages
                else JObj [])"
  using assms last_matching_truthy [of "JNum rid" messages]
  by (simp add: select_response_def Let_def)

text \<open>
  Claim C1. \<open>sendJsonRpc\<close> on an event-stream body whose decoded messages are
  JSON-RPC messages (objects: none of them is \<open>null\<close>, and the last one is truthy, as
  every object is) returns the last message whose \<open>id\<close> is strictly equal to the
  request's; when none is, the last message of the stream, whatever id it carries or
  none; and for a stream without messages the empty object.
\<close>

theorem sse_result_correlates:
  assumes "JNull \<notin> set (parseSSEResponse parse chunks)"
    and "parseSSEResponse parse chunks \<noteq> [] \<longrightarrow> truthy (last (parseSSEResponse parse chunks))"
  shows "sse_result parse chunks (Some rid) =
           Inr (if filter (\<lambda>m. get_id m = Some (JNum rid)) (parseSSEResponse parse chunks) \<noteq> []
                then last (filter (\<lambda>m. get_id m = Some (JNum rid)) (parseSSEResponse parse chunks))
                else if parseSSEResponse parse chunks \<noteq> [] then last (parseSSEResponse parse chunks)
                else JObj [])"
  unfolding sse_result_def using assms by (rule select_response_no_null)

theorem sse_result_correlates_witness:
  \<open>sse_result sample_parse
      [''data: {"id":7,"result":{}}'' @ [NL, NL]
       @ ''data: {"method":"notifications/progress"}'' @ [NL, NL]] (Some 7)
     = Inr (JObj [(''id'', JNum 7), (''result'', JObj [])])
   \<and> sse_result sample_parse
      [''data: {"id":5,"result":{}}'' @ [NL, NL]
       @ ''data: {"method":"notifications/progress"}'' @ [NL, NL]] (Some 7)
     = Inr (JObj [(''method'', JStr ''notifications/progress'')])
   \<and> sse_result sample_parse [] (Some 7) = Inr (JObj [])\<close>
proof -
  have a: \<open>parseSSEResponse sample_parse
      [''data: {"id":7,"result":{}}'' @ [NL, NL]
       @ ''data: {"method":"notifications/progress"}'' @ [NL, NL]]
     = [JObj [(''id'', JNum 7), (''result'', JObj [])],
        JObj [(''method'', JStr ''notifications/progress'')]]\<close>
    by (simp add: parseSSEResponse_def sample_parse_def)
  have b: \<open>parseSSEResponse sample_parse
      [''data: {"id":5,"result":{}}'' @ [NL, NL]
       @ ''data: {"method":"notifications/progress"}'' @ [NL, NL]]
     = [JObj [(''id'', JNum 5), (''result'', JObj [])],
        JObj [(''method'', JStr ''notifications/progress'')]]\<close>
    by (simp add: parseSSEResponse_def sample_parse_def)
  have c: "parseSSEResponse sample_parse [] = []"
    by (simp add: parseSSEResponse_def)
  show ?thesis
    using sse_result_correlates [of sample_parse
        \<open>[''data: {"id":7,"result":{}}'' @ [NL, NL]
          @ ''data: {"method":"notifications/progress"}'' @ [NL, NL]]\<close> 7]
      sse_result_correlates [of sample_parse
        \<open>[''data: {"id":5,"result":{}}'' @ [NL, NL]
          @ ''data: {"method":"notifications/progress"}'' @ [NL, NL]]\<close> 7]
      sse_result_correlates [of sample_parse "[]" 7]
    unfolding a b c by simp
qed

text \<open>
  Claim C5 fails on the code. The frame of the specification's example, delivered whole,
  decodes to its one message. Delivered in two chunks, the data line with its newline
  and then the blank line's newline, it decodes to nothing: \<open>currentData\<close> is
  declared inside the reader's loop, so the payload gathered from the first chunk is
  gone when the terminator arrives, whatever \<open>JSON.parse\<close> does.
\<close>

theorem parseSSEResponse_split_frame_lost:
  \<open>parseSSEResponse parse [''data: {"jsonrpc":"2.0","id":1,"result":{}}'' @ [NL, NL]]
     = (case parse ''{"jsonrpc":"2.0","id":1,"result":{}}'' of Some m \<Rightarrow> [m] | None \<Rightarrow> [])
   \<and> parseSSEResponse parse [''data: {"jsonrpc":"2.0","id":1,"result":{}}'' @ [NL], [NL]] = []\<close>
  by (simp add: parseSSEResponse_def split: option.splits)

text \<open>
  The flush after the loop looks at \<open>buffer\<close> only, the text after the last newline.
  A trailing data line that ends in a newline but has no blank line after it is
  dropped; one that lacks the newline is parsed.
\<close>

lemma parseSSEResponse_complete_line_not_flushed:
  \<open>parseSSEResponse parse [''data: {"jsonrpc":"2.0","id":1,"result":{}}'' @ [NL]] = []
   \<and> parseSSEResponse parse [''data: {"jsonrpc":"2.0","id":1,"result":{}}'']
     = (case parse ''{"jsonrpc":"2.0","id":1,"result":{}}'' of Some m \<Rightarrow> [m] | None \<Rightarrow> [])\<close>
  by (simp add: parseSSEResponse_def split: option.splits)

lemma parseSSEResponse_two_frames:
  \<open>parseSSEResponse parse
      [''data: {"jsonrpc":"2.0","method":"notification"}'' @ [NL, NL]
       @ ''data: {"jsonrpc":"2.0","id":2,"result":{}}'' @ [NL, NL]]
     = (case parse ''{"jsonrpc":"2.0","method":"notification"}'' of Some m \<Rightarrow> [m] | None \<Rightarrow> [])
       @ (case parse ''{"jsonrpc":"2.0","id":2,"result":{}}'' of Some m \<Rightarrow> [m] | None \<Rightarrow> [])\<close>
  by (simp add: parseSSEResponse_def split: option.splits)

text \<open>
  Outside the hypotheses of \<open>sse_result_correlates\<close>: a decoded \<open>null\<close> makes the
  \<open>filter\<close> callback throw, and a falsy last message (\<open>false\<close>, \<open>0\<close>, the empty
  string) falls through \<open>||\<close> to the empty object.
\<close>

lemma select_response_null_throws:
  "select_response [JNull] (Some 1) = Inl null_read_error"
  by (simp add: select_response_def)

lemma select_response_falsy_last:
  "select_response [JBool False] (Some 1) = Inr (JObj [])"
  by (simp add: select_response_def)

section \<open>Properties of the monitoring checks\<close>

lemma is_stale_iff:
  "is_stale parseDate cutoff c \<longleftrightarrow>
     (\<exists>s t. (if str_truthy (lastActivity c) then lastActivity c
             else if str_truthy (dateUpdated c) then dateUpdated c
             else dateAdded c) = Some s
        \<and> s \<noteq> [] \<and> parseDate s = Some t \<and> t < cutoff)"
  by (auto simp: is_stale_def activity_date_def js_or_def str_truthy_def date_before_def
      split: option.splits)

lemma is_stale_lastActivity:
  assumes "lastActivity c = Some s" and "s \<noteq> []" and "parseDate s = Some t"
  shows "is_stale parseDate cutoff c \<longleftrightarrow> t < cutoff"
  using assms
  by (simp add: is_stale_def activity_date_def js_or_def str_truthy_def date_before_def)

text \<open>
  Claim C6, as the code has it. The check counts a contact exactly when the first of
  \<open>lastActivity\<close>, \<open>dateUpdated\<close>, \<open>dateAdded\<close> that is present and not empty, in
  that order, parses to a date before \<open>now\<close> minus the configured hours (48 when the
  setting is missing or 0); the later fields are read only when the earlier ones are
  missing. \<open>count\<close> is the number of such contacts and \<open>items\<close> lists the first ten
  of them. With 48 hours, a contact whose \<open>lastActivity\<close> is 50 hours old is stale
  and one whose \<open>lastActivity\<close> is 40 hours old is not. All this when \<open>now\<close> minus
  the hours is a time a \<open>Date\<close> can hold; when it is not, the check throws the
  \<open>RangeError\<close> of \<open>toISOString()\<close> and reports nothing.
\<close>

theorem checkStaleLeads_first_present:
  "(let hours = num_or (Option.bind thresholds stale_lead_hours) 48;
        cutoff = now - hours * 3600000;
        stale = filter (is_stale parseDate cutoff) contacts
    in checkStaleLeads now render_now parseDate thresholds (Inr contacts)
         = (if valid_time cutoff
            then Inr \<lparr>check = ''stale_leads'', count = length stale,
                      threshold = show_int hours @ ''h'',
                      items = map (stale_item_of render_now parseDate) (take 10 stale),
                      hasMore = (10 < length stale)\<rparr>
            else Inl invalid_time_error)
       \<and> (\<forall>c. is_stale parseDate cutoff c \<longleftrightarrow>
              (\<exists>s t. (if str_truthy (lastActivity c) then lastActivity c
                      else if str_truthy (dateUpdated c) then dateUpdated c
                      else dateAdded c) = Some s
                 \<and> s \<noteq> [] \<and> parseDate s = Some t \<and> t < cutoff))
       \<and> (\<forall>c s. hours = 48 \<and> lastActivity c = Some s \<and> s \<noteq> []
              \<and> parseDate s = Some (now - 50 * 3600000) \<longrightarrow> is_stale parseDate cutoff c)
       \<and> (\<forall>c s. hours = 48 \<and> lastActivity c = Some s \<and> s \<noteq> []
              \<and> parseDate s = Some (now - 40 * 3600000) \<longrightarrow> \<not> is_stale parseDate cutoff c))"
  unfolding Let_def
proof (intro conjI allI impI)
  show "checkStaleLeads now render_now parseDate thresholds (Inr contacts) =
    (if valid_time (now - num_or (Option.bind thresholds stale_lead_hours) 48 * 3600000)
     then Inr \<lparr>check = ''stale_leads'',
         count = length (filter (is_stale parseDate
                   (now - num_or (Option.bind thresholds stale_lead_hours) 48 * 3600000)) contacts),
         threshold = show_int (num_or (Option.bind thresholds stale_lead_hours) 48) @ ''h'',
         items = map (stale_item_of render_now parseDate)
                   (take 10 (filter (is_stale parseDate
                      (now - num_or (Option.bind thresholds stale_lead_hours) 48 * 3600000)) contacts)),
         hasMore = (10 < length (filter (is_stale parseDate
                      (now - num_or (Option.bind thresholds stale_lead_hours) 48 * 3600000)) contacts))\<rparr>
     else Inl invalid_time_error)"
    by (simp add: checkStaleLeads_def Let_def)
next
  fix c :: ghl_contact
  show "is_stale parseDate (now - num_or (Option.bind thresholds stale_lead_hours) 48 * 3600000) c
      \<longleftrightarrow> (\<exists>s t. (if str_truthy (lastActivity c) then lastActivity c
                   else if str_truthy (dateUpdated c) then dateUpdated c
                   else dateAdded c) = Some s
              \<and> s \<noteq> [] \<and> parseDate s = Some t
              \<and> t < now - num_or (Option.bind thresholds stale_lead_hours) 48 * 3600000)"
    by (rule is_stale_iff)
next
  fix c :: ghl_contact and s
  assume "num_or (Option.bind thresholds stale_lead_hours) 48 = 48 \<and> lastActivity c = Some s
      \<and> s \<noteq> [] \<and> parseDate s = Some (now - 50 * 3600000)"
  then show "is_stale parseDate
      (now - num_or (Option.bind thresholds stale_lead_hours) 48 * 3600000) c"
    by (simp add: is_stale_lastActivity)
next
  fix c :: ghl_contact and s
  assume "num_or (Option.bind thresholds stale_lead_hours) 48 = 48 \<and> lastActivity c = Some s
      \<and> s \<noteq> [] \<and> parseDate s = Some (now - 40 * 3600000)"
  then show "\<not> is_stale parseDate
      (now - num_or (Option.bind thresholds stale_lead_hours) 48 * 3600000) c"
    by (simp add: is_stale_lastActivity)
qed

lemmas eval_monitor =
  show_int_def show_nat_small show_nat_big sample_now_def sample_date_def sample_contact_def
  is_stale_def activity_date_def js_or_def str_truthy_def date_before_def num_or_def
  stale_item_of_def timeAgo_def trim_def is_space_def or_empty_def valid_time_def

theorem checkStaleLeads_first_present_witness:
  "checkStaleLeads sample_now sample_now sample_date
      (Some \<lparr>stale_lead_hours = Some 48, stuck_opportunity_days = None,
             slow_response_minutes = None\<rparr>)
      (Inr [sample_contact ''c1'' (Some ''2023-11-12T20:13:20Z'') None,
            sample_contact ''c2'' (Some ''2023-11-13T06:13:20Z'') None])
     = Inr \<lparr>check = ''stale_leads'', count = 1, threshold = ''48h'',
            items = [\<lparr>item_id = ''c1'', item_name = Some ''John Doe'',
                      item_lastActivity = ''2d ago'', item_tags = [''AI-Audit-Lead'']\<rparr>],
            hasMore = False\<rparr>
   \<and> is_stale sample_date (sample_now - 48 * 3600000)
        (sample_contact ''c1'' (Some ''2023-11-12T20:13:20Z'') None)
   \<and> \<not> is_stale sample_date (sample_now - 48 * 3600000)
        (sample_contact ''c2'' (Some ''2023-11-13T06:13:20Z'') None)
   \<and> checkStaleLeads sample_now sample_now sample_date
      (Some \<lparr>stale_lead_hours = Some 3000000000, stuck_opportunity_days = None,
             slow_response_minutes = None\<rparr>)
      (Inr [sample_contact ''c1'' (Some ''2023-11-12T20:13:20Z'') None])
     = Inl (JsError ''RangeError'' (Some ''Invalid time value''))"
  using checkStaleLeads_first_present [of
      "Some \<lparr>stale_lead_hours = Some 48, stuck_opportunity_days = None,
             slow_response_minutes = None\<rparr>"
      sample_now sample_date
      "[sample_contact ''c1'' (Some ''2023-11-12T20:13:20Z'') None,
        sample_contact ''c2'' (Some ''2023-11-13T06:13:20Z'') None]"
      sample_now]
    checkStaleLeads_first_present [of
      "Some \<lparr>stale_lead_hours = Some 3000000000, stuck_opportunity_days = None,
             slow_response_minutes = None\<rparr>"
      sample_now sample_date
      "[sample_contact ''c1'' (Some ''2023-11-12T20:13:20Z'') None]"
      sample_now]
  by (simp add: Let_def eval_monitor invalid_time_error_def)

text \<open>
  The claim as the specification words it judges a contact by the most recent of its
  three dates. A contact whose \<open>lastActivity\<close> is 50 hours old and whose
  \<open>dateUpdated\<close> is one hour old has a most recent date inside the 48 hours, yet the
  check reports it.
\<close>

theorem checkStaleLeads_most_recent_counterexample:
  "checkStaleLeads sample_now sample_now sample_date None
      (Inr [sample_contact ''c3'' (Some ''2023-11-12T20:13:20Z'') (Some ''2023-11-14T21:13:20Z'')])
     = Inr \<lparr>check = ''stale_leads'', count = 1, threshold = ''48h'',
            items = [\<lparr>item_id = ''c3'', item_name = Some ''John Doe'',
                      item_lastActivity = ''2d ago'', item_tags = [''AI-Audit-Lead'']\<rparr>],
            hasMore = False\<rparr>
   \<and> spec_most_recent sample_date
        (sample_contact ''c3'' (Some ''2023-11-12T20:13:20Z'') (Some ''2023-11-14T21:13:20Z''))
     = Some (sample_now - 1 * 3600000)
   \<and> \<not> spec_is_stale sample_date (sample_now - 48 * 3600000)
        (sample_contact ''c3'' (Some ''2023-11-12T20:13:20Z'') (Some ''2023-11-14T21:13:20Z''))"
  by (simp add: checkStaleLeads_def Let_def eval_monitor spec_is_stale_def spec_most_recent_def)

subsection \<open>Rounding to a double\<close>

lemma bitlen_step: "0 < x \<Longrightarrow> bitlen x = bitlen (x div 2) + 1"
  by (subst compute_bitlen) simp

lemma floor_rat_numeral_div: "\<lfloor>numeral a / numeral b :: rat\<rfloor> = numeral a div numeral b"
  by (metis floor_divide_of_int_eq of_int_numeral)

lemma ceiling_rat_numeral_div: "\<lceil>numeral a / numeral b :: rat\<rceil> = - (- numeral a div numeral b)"
  by (metis ceiling_def floor_divide_of_int_eq minus_divide_left of_int_minus of_int_numeral)

lemmas eval_double =
  to_double_def floor_log2_def pow2_def round_half_even_def bitlen_step Let_def
  floor_rat_numeral_div ceiling_rat_numeral_div

text \<open>
  Checks of the rounding: a tie goes to the even significand on either side, and the
  literals 0.1 and 0.2 add up to 0.30000000000000004.
\<close>

lemma to_double_ties_to_even:
  "to_double 9007199254740993 = Num 9007199254740992"
  "to_double 9007199254740995 = Num 9007199254740996"
  by (simp_all add: eval_double)

lemma to_double_tenths:
  "to_double (1 / 10) = Num (3602879701896397 / 36028797018963968)"
  "to_double (2 / 10) = Num (3602879701896397 / 18014398509481984)"
  "js_add (Num (3602879701896397 / 36028797018963968)) (Num (3602879701896397 / 18014398509481984))
     = Num (5404319552844596 / 18014398509481984)"
  by (simp_all add: eval_double)









lemmas eval_bottleneck =
  eval_monitor sample_opportunity_def sample_pipeline_def stuck_item_of_def stage_name_of_def
  property_key_def object_prototype_keys_def



text \<open>Under an inherited name the same two opportunities end the check with the error.\<close>

lemma checkPipelineBottlenecks_inherited_name_throws:
  "checkPipelineBottlenecks sample_now sample_now sample_date show_int None
      (Inr [sample_pipeline\<lparr>stages := Some [\<lparr>stage_id = Some ''stage2'',
                                                stage_name = Some ''constructor''\<rparr>]\<rparr>])
      (\<lambda>p. Inr [sample_opportunity ''opp1'' (Some 2500) ''2023-11-05T22:13:20Z'',
                 sample_opportunity ''opp2'' None ''2023-11-06T22:13:20Z''])
     = Inl (JsError ''TypeError'' (Some ''stageGroups[stageName].push is not a function''))"
  by (simp add: checkPipelineBottlenecks_def Let_def stuck_cutoff_def is_stuck_def
      eval_bottleneck push_type_error_def)

text \<open>
  Claim C7. Once the location is found in the configuration and the action client is
  created, \<open>runAllChecks\<close> returns a report whatever the four checks settle to. Each
  entry of the report depends on its own check alone: the check's finding when it
  fulfilled, and otherwise the check's name with, as \<open>error\<close>, the message of the
  reason it rejected with, in place of the finding's \<open>count\<close> and \<open>items\<close>.
\<close>

theorem runAllChecks_reports_every_check:
  assumes "locations locationAlias = Some locationConfig"
    and "createActions locationConfig = Inr actions"
  shows "runAllChecks locations locationAlias createActions
             checkStale checkFollowups checkBottlenecks checkResponses
           = Inr \<lparr>location = location_name locationConfig,
                  staleLeads =
                    (case checkStale actions locationConfig of
                       Inr finding \<Rightarrow> Finding finding
                     | Inl reason \<Rightarrow> CheckError ''stale_leads'' (message reason)),
                  missedFollowups =
                    (case checkFollowups actions locationConfig of
                       Inr finding \<Rightarrow> Finding finding
                     | Inl reason \<Rightarrow> CheckError ''missed_followups'' (message reason)),
                  pipelineBottlenecks =
                    (case checkBottlenecks actions locationConfig of
                       Inr finding \<Rightarrow> Finding finding
                     | Inl reason \<Rightarrow> CheckError ''pipeline_bottlenecks'' (message reason)),
                  slowResponses =
                    (case checkResponses actions locationConfig of
                       Inr finding \<Rightarrow> Finding finding
                     | Inl reason \<Rightarrow> CheckError ''slow_responses'' (message reason))\<rparr>"
  using assms by (simp add: runAllChecks_def settled_entry_def)

theorem runAllChecks_reports_every_check_witness:
  "runAllChecks sample_locations ''main'' (\<lambda>cfg. Inr ())
      (\<lambda>actions cfg. checkStaleLeads sample_now sample_now sample_date (location_thresholds cfg)
          (Inl (JsError ''Error'' (Some ''Connection refused''))))
      (\<lambda>actions cfg. Inr (0::nat))
      (\<lambda>actions cfg. checkPipelineBottlenecks sample_now sample_now sample_date
          show_int (location_thresholds cfg) (Inr []) (\<lambda>p. Inr []))
      (\<lambda>actions cfg. Inl (JsError ''TypeError'' (Some ''fetch failed'')) :: js_error + nat)
     = Inr \<lparr>location = Some ''Main Agency'',
            staleLeads = CheckError ''stale_leads'' (Some ''Connection refused''),
            missedFollowups = Finding 0,
            pipelineBottlenecks =
              Finding \<lparr>pb_check = ''pipeline_bottlenecks'', pb_count = 0, pb_threshold = ''7d'',
                       bottlenecks = []\<rparr>,
            slowResponses = CheckError ''slow_responses'' (Some ''fetch failed'')\<rparr>"
  using runAllChecks_reports_every_check [of sample_locations "''main''"
      "\<lparr>location_name = Some ''Main Agency'', token = ''pit-1'', locationId = ''loc-1'',
        location_thresholds = None\<rparr>"
      "\<lambda>cfg. Inr ()" "()"
      "\<lambda>actions cfg. checkStaleLeads sample_now sample_now sample_date (location_thresholds cfg)
          (Inl (JsError ''Error'' (Some ''Connection refused'')))"
      "\<lambda>actions cfg. Inr (0::nat)"
      "\<lambda>actions cfg. checkPipelineBottlenecks sample_now sample_now sample_date
          show_int (location_thresholds cfg) (Inr []) (\<lambda>p. Inr [])"
      "\<lambda>actions cfg. Inl (JsError ''TypeError'' (Some ''fetch failed'')) :: js_error + nat"]
  by (simp add: sample_locations_def checkStaleLeads_def checkPipelineBottlenecks_def
      stuck_cutoff_def eval_monitor)

section \<open>Properties of the credential encryption\<close>

subsection \<open>UTF-8 decoding undoes encoding on well-formed strings\<close>

lemma decode_one:
  assumes "cp < 0x80"
  shows "utf8_code_points (utf8_of_code_point cp @ rest) 0 0 0x80 0xBF
           = cp # utf8_code_points rest 0 0 0x80 0xBF"
  using assms by (simp add: utf8_of_code_point_def utf8_code_points.simps)

lemma decode_two:
  assumes "0x80 \<le> cp" and "cp < 0x800"
  shows "utf8_code_points (utf8_of_code_point cp @ rest) 0 0 0x80 0xBF
           = cp # utf8_code_points rest 0 0 0x80 0xBF"
proof -
  have enc: "utf8_of_code_point cp = [0xC0 + cp div 0x40, 0x80 + cp mod 0x40]"
    using assms by (simp add: utf8_of_code_point_def)
  have a: "2 \<le> cp div 0x40" "cp div 0x40 \<le> 31" "cp mod 0x40 \<le> 63"
    using assms by arith+
  have b: "cp div 0x40 * 0x40 + cp mod 0x40 = cp"
    by simp
  show ?thesis
    using a b by (simp add: enc utf8_code_points.simps)
qed

lemma decode_three:
  assumes "0x800 \<le> cp" and "cp < 0x10000" and "cp < 0xD800 \<or> 0xE000 \<le> cp"
  shows "utf8_code_points (utf8_of_code_point cp @ rest) 0 0 0x80 0xBF
           = cp # utf8_code_points rest 0 0 0x80 0xBF"
proof -
  define q where "q = cp div 0x40"
  define r where "r = cp mod 0x40"
  have cp: "cp = q * 0x40 + r" and r: "r < 0x40"
    by (simp_all add: q_def r_def)
  have q: "32 \<le> q" "q < 1024" "q < 864 \<or> 896 \<le> q"
    using assms unfolding cp using r by linarith+
  have top: "cp div 0x1000 = q div 0x40"
    using div_mult2_eq [of cp "0x40" "0x40"] by (simp add: q_def)
  have enc: "utf8_of_code_point cp = [0xE0 + q div 0x40, 0x80 + q mod 0x40, 0x80 + r]"
    using assms by (simp add: utf8_of_code_point_def top q_def r_def)
  have a: "q div 0x40 \<le> 15" "q mod 0x40 \<le> 63"
    using q by linarith+
  have split: "q = q div 0x40 * 0x40 + q mod 0x40" "q mod 0x40 < 0x40"
    by simp_all
  have lo: "q div 0x40 = 0 \<longrightarrow> \<not> q < 32"
    using q by simp
  have hi: "q div 0x40 = 13 \<longrightarrow> \<not> 31 < q mod 0x40"
    using q split by linarith
  have whole: "(q div 0x40 * 0x40 + q mod 0x40) * 0x40 + r = cp"
    by (simp add: cp)
  show ?thesis
    using a lo hi r whole by (simp add: enc utf8_code_points.simps)
qed

lemma decode_four:
  assumes "0x10000 \<le> cp" and "cp < 0x110000"
  shows "utf8_code_points (utf8_of_code_point cp @ rest) 0 0 0x80 0xBF
           = cp # utf8_code_points rest 0 0 0x80 0xBF"
proof -
  define q where "q = cp div 0x40"
  define r where "r = cp mod 0x40"
  define p where "p = q div 0x40"
  have cp: "cp = q * 0x40 + r" and r: "r < 0x40"
    by (simp_all add: q_def r_def)
  have q: "q = p * 0x40 + q mod 0x40"
    by (simp add: p_def)
  have q_bounds: "1024 \<le> q" "q < 17408"
    using assms unfolding cp using r by linarith+
  have p_bounds: "16 \<le> p" "p < 272"
    using q_bounds unfolding p_def by linarith+
  have mid: "cp div 0x1000 = p"
    using div_mult2_eq [of cp "0x40" "0x40"] by (simp add: q_def p_def)
  have top: "cp div 0x40000 = p div 0x40"
    using div_mult2_eq [of cp "0x1000" "0x40"] by (simp add: mid)
  have enc: "utf8_of_code_point cp
      = [0xF0 + p div 0x40, 0x80 + p mod 0x40, 0x80 + q mod 0x40, 0x80 + r]"
    using assms by (simp add: utf8_of_code_point_def top mid q_def r_def)
  have a: "p div 0x40 \<le> 4" "p mod 0x40 \<le> 63" "q mod 0x40 \<le> 63"
    using p_bounds by linarith+
  have split: "p = p div 0x40 * 0x40 + p mod 0x40" "p mod 0x40 < 0x40"
    by simp_all
  have lo: "p div 0x40 = 0 \<longrightarrow> \<not> p < 16"
    using p_bounds by simp
  have hi: "p div 0x40 = 4 \<longrightarrow> \<not> 15 < p mod 0x40"
    using p_bounds split by linarith
  have whole: "((p div 0x40 * 0x40 + p mod 0x40) * 0x40 + q mod 0x40) * 0x40 + r = cp"
    using q by (simp add: cp)
  show ?thesis
    using a lo hi r whole by (simp add: enc utf8_code_points.simps)
qed

lemma decode_scalar:
  assumes "scalar cp"
  shows "utf8_code_points (utf8_of_code_point cp @ rest) 0 0 0x80 0xBF
           = cp # utf8_code_points rest 0 0 0x80 0xBF"
proof -
  consider "cp < 0x80" | "0x80 \<le> cp \<and> cp < 0x800" | "0x800 \<le> cp \<and> cp < 0x10000"
    | "0x10000 \<le> cp"
    by linarith
  then show ?thesis
  proof cases
    case 1 then show ?thesis by (rule decode_one)
  next
    case 2 then show ?thesis by (simp add: decode_two)
  next
    case 3 then show ?thesis using assms by (intro decode_three) (auto simp: scalar_def)
  next
    case 4 then show ?thesis using assms by (intro decode_four) (auto simp: scalar_def)
  qed
qed

lemma decode_scalars:
  assumes "\<forall>cp \<in> set cps. scalar cp"
  shows "utf8_code_points (concat (map utf8_of_code_point cps)) 0 0 0x80 0xBF = cps"
  using assms
proof (induction cps)
  case Nil
  then show ?case by (simp add: utf8_code_points.simps)
next
  case (Cons cp cps)
  then show ?case by (simp add: decode_scalar)
qed

lemma well_formed_code_points:
  assumes "well_formed s"
  shows "(\<forall>cp \<in> set (code_points s). scalar cp)
       \<and> concat (map utf16_units (code_points s)) = s"
  using assms
proof (induction s rule: code_points.induct)
  case 1
  then show ?case by simp
next
  case (2 u)
  then show ?case
    by (auto simp: lone_unit_def scalar_def utf16_units_def is_high_surrogate_def
        is_low_surrogate_def)
next
  case (3 u v us)
  show ?case
  proof (cases "is_high_surrogate u")
    case True
    then have low: "is_low_surrogate v" and rest: "well_formed us"
      using "3.prems" by simp_all
    obtain h l where u: "u = 0xD800 + h" and h: "h < 0x400"
      and v: "v = 0xDC00 + l" and l: "l < 0x400"
      using True low
      by (auto simp: is_high_surrogate_def is_low_surrogate_def le_iff_add)
    have pair: "scalar (0x10000 + (u - 0xD800) * 0x400 + (v - 0xDC00))"
      "utf16_units (0x10000 + (u - 0xD800) * 0x400 + (v - 0xDC00)) = [u, v]"
      using h l by (simp_all add: u v scalar_def utf16_units_def)
    show ?thesis
      using True low "3.IH"(1) rest pair by simp
  next
    case False
    then have unit: "u < 0x10000" "\<not> is_low_surrogate u" and rest: "well_formed (v # us)"
      using "3.prems" by simp_all
    have one: "scalar (lone_unit u)" "utf16_units (lone_unit u) = [u]"
      using False unit
      by (auto simp: lone_unit_def scalar_def utf16_units_def is_high_surrogate_def
          is_low_surrogate_def)
    show ?thesis
      using False "3.IH"(2) rest one by simp
  qed
qed

lemma utf8_round_trip:
  assumes "well_formed s"
  shows "utf8_decode (utf8_encode s) = s"
  using well_formed_code_points [OF assms]
  by (simp add: utf8_decode_def utf8_encode_def decode_scalars)

subsection \<open>The round trip\<close>

lemma unpack_packed:
  assumes "length salt = 32" and "length iv = 16" and "length tag = 16"
  shows "subarray (salt @ iv @ tag @ encrypted) 0 SALT_LENGTH = salt"
    and "subarray (salt @ iv @ tag @ encrypted) SALT_LENGTH (SALT_LENGTH + IV_LENGTH) = iv"
    and "subarray (salt @ iv @ tag @ encrypted) (SALT_LENGTH + IV_LENGTH)
           (SALT_LENGTH + IV_LENGTH + TAG_LENGTH) = tag"
    and "drop (SALT_LENGTH + IV_LENGTH + TAG_LENGTH) (salt @ iv @ tag @ encrypted) = encrypted"
  using assms
  by (simp_all add: subarray_def SALT_LENGTH_def IV_LENGTH_def TAG_LENGTH_def)

lemma decrypt_encrypt_decodes:
  assumes "length salt = 32" and "length iv = 16"
    and "\<forall>key data. length (snd (cipher_gcm node key iv data)) = 16"
    and "\<forall>key data. decipher_gcm node key iv (snd (cipher_gcm node key iv data))
                        (fst (cipher_gcm node key iv data)) = Inr data"
    and "\<forall>packed. base64_bytes node (base64_string node packed) = packed"
  shows "decrypt node (encrypt node salt iv plaintext password) password
           = Inr (utf8_decode (utf8_encode plaintext))"
proof -
  let ?key = "deriveKey node password salt"
  let ?data = "utf8_encode plaintext"
  let ?encrypted = "fst (cipher_gcm node ?key iv ?data)"
  let ?tag = "snd (cipher_gcm node ?key iv ?data)"
  have tag: "length ?tag = 16"
    using assms(3) by simp
  have enc: "encrypt node salt iv plaintext password
      = base64_string node (salt @ iv @ ?tag @ ?encrypted)"
    by (simp add: encrypt_def Let_def split_beta)
  have plain: "decipher_gcm node ?key iv ?tag ?encrypted = Inr ?data"
    using assms(4) by simp
  have b64: "base64_bytes node (base64_string node (salt @ iv @ ?tag @ ?encrypted))
      = salt @ iv @ ?tag @ ?encrypted"
    using assms(5) by simp
  show ?thesis
    unfolding enc decrypt_def Let_def b64 unpack_packed [OF assms(1,2) tag] plain
    by simp
qed

lemma sample_node_contracts:
  "\<forall>key data. length (snd (cipher_gcm sample_node key iv data)) = 16"
  "\<forall>key data. decipher_gcm sample_node key iv (snd (cipher_gcm sample_node key iv data))
                  (fst (cipher_gcm sample_node key iv data)) = Inr data"
  "\<forall>packed. base64_bytes sample_node (base64_string sample_node packed) = packed"
  by (simp_all add: sample_node_def)

lemma utf8_lone_surrogate:
  "utf8_decode (utf8_encode lone_surrogate_text) = [0x61, 0xFFFD, 0x62]"
  by (simp add: lone_surrogate_text_def utf8_decode_def utf8_encode_def
      utf8_of_code_point_def lone_unit_def is_high_surrogate_def is_low_surrogate_def
      utf8_code_points.simps utf16_units_def)

text \<open>
  Claim C10, amended. \<open>decrypt\<close> undoes \<open>encrypt\<close> under the same password for every
  well-formed plaintext (a string in which every surrogate code unit is half of a
  pair), every salt of 32 bytes and every IV of 16 bytes, given the contracts of the
  platform: the cipher's tag has 16 bytes, deciphering with the same key, IV and tag
  returns the data, and base64 decodes what it encoded. The UTF-8 coding of the
  plaintext is not assumed: it is the encoder and decoder above.
\<close>

theorem decrypt_encrypt:
  assumes "well_formed plaintext"
    and "length salt = 32" and "length iv = 16"
    and "\<forall>key data. length (snd (cipher_gcm node key iv data)) = 16"
    and "\<forall>key data. decipher_gcm node key iv (snd (cipher_gcm node key iv data))
                        (fst (cipher_gcm node key iv data)) = Inr data"
    and "\<forall>packed. base64_bytes node (base64_string node packed) = packed"
  shows "decrypt node (encrypt node salt iv plaintext password) password = Inr plaintext"
  using decrypt_encrypt_decodes [OF assms(2-6)] utf8_round_trip [OF assms(1)]
  by simp

theorem decrypt_encrypt_witness:
  "decrypt sample_node
      (encrypt sample_node (replicate 32 0x73) (replicate 16 0x69) sample_token sample_password)
      sample_password
     = Inr sample_token"
  using decrypt_encrypt [of sample_token "replicate 32 0x73" "replicate 16 0x69" sample_node
      sample_password]
  by (simp add: sample_node_def sample_token_def is_high_surrogate_def is_low_surrogate_def)

text \<open>
  The claim as the specification words it, for every plaintext, does not hold: a
  surrogate that is not half of a pair is encoded as U+FFFD, so the string
  \<open>'a\ud800b'\<close> comes back as \<open>'a\ufffdb'\<close> on a platform that keeps all three
  contracts.
\<close>

theorem decrypt_encrypt_lone_surrogate_counterexample:
  "decrypt sample_node
      (encrypt sample_node (replicate 32 0x73) (replicate 16 0x69) lone_surrogate_text
         sample_password)
      sample_password
     = Inr [0x61, 0xFFFD, 0x62]
   \<and> decrypt sample_node
      (encrypt sample_node (replicate 32 0x73) (replicate 16 0x69) lone_surrogate_text
         sample_password)
      sample_password
     \<noteq> Inr lone_surrogate_text"
  using decrypt_encrypt_decodes [of "replicate 32 0x73" "replicate 16 0x69" sample_node
      lone_surrogate_text sample_password]
  by (simp add: sample_node_contracts utf8_lone_surrogate) (simp add: lone_surrogate_text_def)

end
